theory Spec2Isabelle
  imports Complex_Main
begin

section \<open>Python values used by the mood pipeline\<close>

text \<open>
  The embedding covers \<^verbatim>\<open>utils/emotion_validator.py\<close> and the rule-based and
  coercion parts of \<^verbatim>\<open>utils/mood_analyzer.py\<close>.

  Numbers: a Python \<^verbatim>\<open>float\<close> is modelled as an exact \<^typ>\<open>real\<close>; NaN, the
  infinities and binary rounding error are outside the model.

  Text: a Python \<^verbatim>\<open>str\<close> is modelled as a \<^typ>\<open>string\<close> read as ASCII. The
  character classes below are those of Python on ASCII code points; a
  \<^typ>\<open>char\<close> above 127 is in none of them.
\<close>

datatype error = KeyError | ValueError | AttributeError

definition ascii_uppercase :: string where
  "ascii_uppercase = ''ABCDEFGHIJKLMNOPQRSTUVWXYZ''"

definition ascii_lowercase :: string where
  "ascii_lowercase = ''abcdefghijklmnopqrstuvwxyz''"

definition ascii_digits :: string where
  "ascii_digits = ''0123456789''"

text \<open>\<^verbatim>\<open>str.isspace\<close> on ASCII: tab, line feed, vertical tab, form feed, carriage
  return, the four separators 0x1c..0x1f and the space.\<close>

definition whitespace :: string where
  "whitespace = [CHR 0x09, CHR 0x0A, CHR 0x0B, CHR 0x0C, CHR 0x0D,
                 CHR 0x1C, CHR 0x1D, CHR 0x1E, CHR 0x1F, CHR 0x20]"

definition is_space :: "char \<Rightarrow> bool" where
  "is_space c = (c \<in> set whitespace)"

definition is_alpha :: "char \<Rightarrow> bool" where
  "is_alpha c = (c \<in> set ascii_lowercase \<or> c \<in> set ascii_uppercase)"

text \<open>The regular-expression class \<^verbatim>\<open>\w\<close>: letters, digits and the underscore.\<close>

definition is_word :: "char \<Rightarrow> bool" where
  "is_word c = (is_alpha c \<or> c \<in> set ascii_digits \<or> c = CHR ''_'')"

definition to_lower :: "char \<Rightarrow> char" where
  "to_lower c = (case map_of (zip ascii_uppercase ascii_lowercase) c of
                   Some l \<Rightarrow> l | None \<Rightarrow> c)"

text \<open>\<^verbatim>\<open>str.lower\<close>.\<close>

definition lower :: "string \<Rightarrow> string" where
  "lower s = map to_lower s"

text \<open>\<^verbatim>\<open>str.isalpha\<close>: non-empty and every character alphabetic.\<close>

definition isalpha :: "string \<Rightarrow> bool" where
  "isalpha s = (s \<noteq> [] \<and> list_all is_alpha s)"

text \<open>\<^verbatim>\<open>str.split()\<close> without argument: the maximal runs of non-whitespace
  characters, in order. \<open>cur\<close> is the run being read.\<close>

fun split_from :: "string \<Rightarrow> string \<Rightarrow> string list" where
  "split_from cur [] = (if cur = [] then [] else [cur])"
| "split_from cur (c # cs) =
     (if is_space c
      then (if cur = [] then split_from [] cs else cur # split_from [] cs)
      else split_from (cur @ [c]) cs)"

definition split_ws :: "string \<Rightarrow> string list" where
  "split_ws s = split_from [] s"

text \<open>\<^verbatim>\<open>str.strip(chars)\<close>: drop the characters of \<open>chars\<close> from both ends.\<close>

definition strip_chars :: "string \<Rightarrow> string \<Rightarrow> string" where
  "strip_chars chars s =
     rev (dropWhile (\<lambda>c. c \<in> set chars) (rev (dropWhile (\<lambda>c. c \<in> set chars) s)))"

text \<open>\<^verbatim>\<open>str.strip()\<close> without argument strips whitespace.\<close>

definition strip :: "string \<Rightarrow> string" where
  "strip s = strip_chars whitespace s"

text \<open>
  \<^verbatim>\<open>max(iterable, key=...)\<close>: the first element whose key is largest; on an
  empty iterable Python raises \<^verbatim>\<open>ValueError\<close> (or returns the default), here
  \<open>None\<close>.
\<close>

fun max_from :: "('a \<Rightarrow> nat) \<Rightarrow> 'a \<Rightarrow> 'a list \<Rightarrow> 'a" where
  "max_from key best [] = best"
| "max_from key best (x # xs) =
     max_from key (if key best < key x then x else best) xs"

definition py_max :: "('a \<Rightarrow> nat) \<Rightarrow> 'a list \<Rightarrow> 'a option" where
  "py_max key xs = (case xs of [] \<Rightarrow> None | x # rest \<Rightarrow> Some (max_from key x rest))"

text \<open>
  \<^verbatim>\<open>round(x, ndigits)\<close>: the nearest multiple of \<open>10 ^ - ndigits\<close>, a tie going to
  the even one.
\<close>

definition round_half_even :: "real \<Rightarrow> int" where
  "round_half_even x =
     (let f = \<lfloor>x\<rfloor>; d = x - of_int f
      in if d < 1 / 2 then f
         else if 1 / 2 < d then f + 1
         else if even f then f else f + 1)"

definition py_round :: "real \<Rightarrow> nat \<Rightarrow> real" where
  "py_round x ndigits = of_int (round_half_even (x * 10 ^ ndigits)) / 10 ^ ndigits"

section \<open>Lexicon and range table (\<^verbatim>\<open>emotion_validator.py\<close>)\<close>

text \<open>Both dictionaries are association lists in the order of the source, which is the
  order Python iterates them in.\<close>

definition EMOTION_KEYWORDS :: "(string \<times> string list) list" where
  "EMOTION_KEYWORDS =
   [(''happy'',
     [''happy'', ''joy'', ''joyful'', ''excited'', ''excitement'', ''proud'', ''pride'',
      ''wonderful'', ''amazing'', ''fantastic'', ''great'', ''excellent'', ''awesome'',
      ''brilliant'', ''delighted'', ''delight'', ''grateful'', ''gratitude'', ''blessed'',
      ''thrilled'', ''elated'', ''cheerful'', ''content'', ''pleased'', ''glad'',
      ''celebrating'', ''celebrate'', ''achievement'', ''accomplished'', ''success'',
      ''love'', ''loved'', ''loving'', ''beautiful'', ''incredible'', ''euphoric'']),
    (''sad'',
     [''sad'', ''sadness'', ''unhappy'', ''down'', ''depressed'', ''depression'',
      ''disappointed'', ''disappointment'', ''miserable'', ''misery'', ''grief'',
      ''grieving'', ''heartbroken'', ''devastated'', ''devastation'', ''hopeless'',
      ''hopelessness'', ''crying'', ''cried'', ''tears'', ''lonely'', ''loneliness'',
      ''loss'', ''lost'', ''empty'', ''emptiness'', ''heavy'', ''hurt'', ''pain'',
      ''rejected'', ''rejection'', ''failure'', ''failed'', ''worthless'', ''helpless'',
      ''gloomy'', ''melancholy'', ''sorrow'', ''sorrowful'', ''suffering'', ''suffer'',
      ''ache'', ''aching'', ''miss'', ''missing'', ''missed'']),
    (''anxious'',
     [''anxious'', ''anxiety'', ''worried'', ''worry'', ''worrying'', ''stress'',
      ''stressed'', ''stressful'', ''nervous'', ''nervousness'', ''overwhelmed'',
      ''overwhelming'', ''panic'', ''panicking'', ''scared'', ''fear'', ''fearful'',
      ''afraid'', ''dread'', ''dreading'', ''tense'', ''tension'', ''uneasy'',
      ''unease'', ''restless'', ''restlessness'', ''uncertain'', ''uncertainty'',
      ''overthinking'', ''racing'', ''overthink'']),
    (''calm'',
     [''calm'', ''peaceful'', ''peace'', ''relaxed'', ''relaxing'', ''relax'',
      ''serene'', ''serenity'', ''tranquil'', ''tranquility'', ''content'',
      ''contentment'', ''comfortable'', ''patient'', ''patience'', ''grounded'',
      ''present'', ''mindful'', ''mindfulness'', ''gentle'', ''stillness'', ''still'',
      ''quiet'', ''steady'', ''slow'', ''breathe'', ''breathing'', ''meditate'',
      ''meditation'', ''balanced'', ''harmony'', ''ease'']),
    (''angry'',
     [''angry'', ''anger'', ''furious'', ''fury'', ''rage'', ''raging'', ''mad'',
      ''frustrated'', ''frustration'', ''irritated'', ''irritation'', ''annoyed'',
      ''annoyance'', ''outraged'', ''outrage'', ''infuriated'', ''livid'', ''fuming'',
      ''resentful'', ''resentment'', ''bitter'', ''bitterness'', ''hostile'',
      ''hatred'', ''hate'', ''disgusted'', ''disgust'']),
    (''neutral'',
     [''okay'', ''fine'', ''alright'', ''regular'', ''normal'', ''usual'', ''average'',
      ''ordinary'', ''standard'', ''typical'', ''moderate'', ''so-so''])]"

definition EMOTION_SCORE_RANGES :: "(string \<times> real \<times> real) list" where
  "EMOTION_SCORE_RANGES =
   [(''happy'', 2 / 10, 1),
    (''calm'', 1 / 10, 6 / 10),
    (''neutral'', - (15 / 100), 15 / 100),
    (''anxious'', - (8 / 10), - (1 / 10)),
    (''sad'', - (9 / 10), - (2 / 10)),
    (''angry'', - (9 / 10), - (3 / 10))]"

section \<open>Rule-based detection (\<^verbatim>\<open>emotion_validator.py\<close>)\<close>

text \<open>\<^verbatim>\<open>_tokenize\<close>: lower-case, replace every character that is neither a word
  character nor whitespace by a space, split on whitespace.\<close>

definition tokenize :: "string \<Rightarrow> string list" where
  "tokenize text =
     split_ws (map (\<lambda>c. if is_word c \<or> is_space c then c else CHR '' '') (lower text))"

text \<open>\<^verbatim>\<open>_count_emotion_matches\<close>: per emotion, the number of its keywords that are
  tokens.\<close>

definition count_emotion_matches :: "string list \<Rightarrow> (string \<times> nat) list" where
  "count_emotion_matches tokens =
     map (\<lambda>(emotion, keywords).
            (emotion, length (filter (\<lambda>kw. kw \<in> set tokens) keywords)))
         EMOTION_KEYWORDS"

text \<open>
  \<^verbatim>\<open>_detect_emotion_from_text\<close>, returning (emotion, score, confidence). The
  maximum runs over the items of \<open>primary_counts\<close>, the key of an item being its own
  count, as \<^verbatim>\<open>max(primary_counts, key=primary_counts.get)\<close> followed by
  \<^verbatim>\<open>primary_counts[dominant]\<close> does.
\<close>

definition detect_emotion_from_text :: "string \<Rightarrow> error + (string \<times> real \<times> real)" where
  "detect_emotion_from_text text =
     (let tokens = tokenize text;
          counts = count_emotion_matches tokens;
          primary_counts = filter (\<lambda>(e, c). e \<noteq> ''neutral'') counts;
          total = sum_list (map snd primary_counts)
      in if total = 0 then Inr (''neutral'', 0, 1 / 2)
         else case py_max snd primary_counts of
           None \<Rightarrow> Inl ValueError
         | Some (dominant, match_count) \<Rightarrow>
            (case map_of EMOTION_SCORE_RANGES dominant of
               None \<Rightarrow> Inl KeyError
             | Some (score_min, score_max) \<Rightarrow>
                (let score_range = score_max - score_min;
                     intensity = min 1 (real match_count / 5);
                     base_score = score_min + score_range * intensity;
                     base_score = py_round (max score_min (min score_max base_score)) 2;
                     confidence = min (90 / 100) (55 / 100 + real match_count * (8 / 100))
                 in Inr (dominant, base_score, confidence))))"

section \<open>Keyword extraction (\<^verbatim>\<open>emotion_validator.py\<close>)\<close>

definition stop_words :: "string list" where
  "stop_words =
   [''the'', ''and'', ''for'', ''are'', ''but'', ''not'', ''you'', ''all'', ''can'',
    ''had'', ''her'', ''was'', ''one'', ''our'', ''out'', ''day'', ''get'', ''has'',
    ''him'', ''his'', ''how'', ''its'', ''may'', ''now'', ''off'', ''old'', ''own'',
    ''say'', ''she'', ''too'', ''use'', ''way'', ''who'', ''with'', ''this'', ''that'',
    ''have'', ''from'', ''they'', ''will'', ''been'', ''were'', ''said'', ''each'',
    ''which'', ''their'', ''there'', ''what'', ''when'', ''where'', ''would'',
    ''make'', ''like'', ''into'', ''just'', ''know'', ''take'', ''than'', ''them'',
    ''well'', ''also'', ''back'', ''after'', ''even'', ''most'', ''such'', ''through'',
    ''those'', ''then'', ''about'', ''should'', ''since'', ''could'', ''still'',
    ''really'', ''today'', ''because'', ''right'', ''always'', ''never'', ''every'',
    ''feel'', ''feels'', ''felt'', ''seem'', ''seems'', ''seemed'',
    ''think'', ''thought'', ''trying'', ''tried'', ''want'', ''wanted'',
    ''went'', ''made'', ''came'', ''went'', ''woke'', ''spent'', ''couldn'',
    ''didn'', ''doesn'', ''isn'', ''wasn'', ''hasn'', ''haven'', ''hadn'',
    ''myself'', ''yourself'', ''himself'', ''herself'', ''itself'',
    ''sometimes'', ''something'', ''anything'', ''nothing'', ''everything'',
    ''though'', ''although'', ''while'', ''since'', ''until'', ''unless'',
    ''pass'', ''must'', ''much'', ''many'', ''more'', ''some'', ''same'']"

text \<open>
  The deduplicating loop of \<^verbatim>\<open>_extract_quality_keywords\<close>: \<open>seen\<close> and
  \<open>final_keywords\<close> are the loop's two variables; the loop stops once five keywords
  are collected.
\<close>

fun collect_keywords :: "string list \<Rightarrow> string set \<Rightarrow> string list \<Rightarrow> string list" where
  "collect_keywords [] seen final_keywords = final_keywords"
| "collect_keywords (kw # rest) seen final_keywords =
     (let (seen', final_keywords') =
            (if kw \<notin> seen then (insert kw seen, final_keywords @ [kw])
             else (seen, final_keywords))
      in if 5 \<le> length final_keywords' then final_keywords'
         else collect_keywords rest seen' final_keywords')"

text \<open>\<^verbatim>\<open>EMOTION_KEYWORDS.get(emotion, [])\<close>.\<close>

definition keywords_of :: "string \<Rightarrow> string list" where
  "keywords_of emotion = (case map_of EMOTION_KEYWORDS emotion of None \<Rightarrow> [] | Some kws \<Rightarrow> kws)"

text \<open>The two comprehensions of \<^verbatim>\<open>_extract_quality_keywords\<close>.\<close>

definition emotion_kwds :: "string \<Rightarrow> string \<Rightarrow> string list" where
  "emotion_kwds text emotion = filter (\<lambda>kw. kw \<in> set (tokenize text)) (keywords_of emotion)"

definition content_words :: "string \<Rightarrow> string \<Rightarrow> string list" where
  "content_words text emotion =
     filter (\<lambda>t. 4 < length t \<and> isalpha t \<and> t \<notin> set stop_words
                 \<and> t \<notin> set (emotion_kwds text emotion))
            (tokenize text)"

definition extract_quality_keywords :: "string \<Rightarrow> string \<Rightarrow> string list" where
  "extract_quality_keywords text emotion =
     (let final_keywords =
            collect_keywords (emotion_kwds text emotion @ content_words text emotion) {} []
      in if final_keywords \<noteq> [] then final_keywords else [''journal'', ''entry''])"

section \<open>The validator (\<^verbatim>\<open>emotion_validator.py\<close>, \<^verbatim>\<open>validate_and_fix\<close>)\<close>

text \<open>
  The dictionary handed to the validator: \<open>None\<close> is a missing key (or a \<^verbatim>\<open>None\<close>
  value), which is what \<^verbatim>\<open>mood_result.get(...)\<close> returns for it.
\<close>

record raw_mood =
  get_mood_score :: "real option"
  get_dominant_emotion :: "string option"
  get_confidence :: "real option"
  get_keywords :: "string list option"

record mood_result =
  mood_score :: real
  dominant_emotion :: string
  confidence :: real
  result_keywords :: "string list"

definition positive_emotions :: "string set" where
  "positive_emotions = {''happy'', ''calm''}"

definition negative_emotions :: "string set" where
  "negative_emotions = {''sad'', ''anxious'', ''angry''}"

text \<open>\<^verbatim>\<open>counts.get(emotion, 0)\<close> for the counts of a text: the keyword evidence of an
  emotion in the text.\<close>

definition evidence :: "string \<Rightarrow> string \<Rightarrow> nat" where
  "evidence text emotion =
     (case map_of (count_emotion_matches (tokenize text)) emotion of
        None \<Rightarrow> 0 | Some n \<Rightarrow> n)"

text \<open>CHECK 1: low confidence, detect again from the text.\<close>

definition check_confidence ::
  "string \<Rightarrow> string \<times> real \<times> real \<Rightarrow> error + (string \<times> real \<times> real)" where
  "check_confidence original_text = (\<lambda>(emotion, score, confidence).
     if confidence < 1 / 2 then detect_emotion_from_text original_text
     else Inr (emotion, score, confidence))"

text \<open>CHECK 2 and CHECK 3, one \<^verbatim>\<open>if/elif/elif\<close> chain: sign fixes, then a neutral
  emotion with an extreme score.\<close>

definition check_sign ::
  "string \<Rightarrow> string \<times> real \<times> real \<Rightarrow> error + (string \<times> real \<times> real)" where
  "check_sign original_text = (\<lambda>(emotion, score, confidence).
     if emotion \<in> positive_emotions \<and> score < 0 then Inr (emotion, \<bar>score\<bar>, confidence)
     else if emotion \<in> negative_emotions \<and> 0 < score then Inr (emotion, - \<bar>score\<bar>, confidence)
     else if emotion = ''neutral'' \<and> 1 / 4 < \<bar>score\<bar> then detect_emotion_from_text original_text
     else Inr (emotion, score, confidence))"

text \<open>CHECK 4: clamp the score to the range of the emotion, when it has one.\<close>

definition check_range :: "string \<times> real \<times> real \<Rightarrow> string \<times> real \<times> real" where
  "check_range = (\<lambda>(emotion, score, confidence).
     case map_of EMOTION_SCORE_RANGES emotion of
       None \<Rightarrow> (emotion, score, confidence)
     | Some (score_min, score_max) \<Rightarrow>
        (let clamped = max score_min (min score_max score)
         in if clamped \<noteq> score then (emotion, clamped, confidence)
            else (emotion, score, confidence)))"

text \<open>
  CHECK 5: an emotion without evidence in the text is replaced when some non-neutral
  emotion has evidence. The maximum runs over the items of \<open>counts\<close> whose key is not
  neutral; \<^verbatim>\<open>default=None\<close> and the truth test of \<open>best_emotion\<close> are the \<open>None\<close>
  and empty-string branches.
\<close>

definition check_evidence ::
  "string \<Rightarrow> string \<times> real \<times> real \<Rightarrow> error + (string \<times> real \<times> real)" where
  "check_evidence original_text = (\<lambda>(emotion, score, confidence).
     let tokens = tokenize original_text;
         counts = count_emotion_matches tokens
     in if (case map_of counts emotion of None \<Rightarrow> 0 | Some n \<Rightarrow> n) = 0
        then (case py_max snd (filter (\<lambda>(e, c). e \<noteq> ''neutral'') counts) of
                None \<Rightarrow> Inr (emotion, score, confidence)
              | Some (best_emotion, best_count) \<Rightarrow>
                  if best_emotion \<noteq> [] \<and> 0 < best_count
                  then detect_emotion_from_text original_text
                  else Inr (emotion, score, confidence))
        else Inr (emotion, score, confidence))"

text \<open>
  The first three assignments of \<^verbatim>\<open>validate_and_fix\<close>. \<^verbatim>\<open>x or default\<close>
  takes the default for a missing, \<^verbatim>\<open>None\<close>, empty or zero \<open>x\<close>.
\<close>

definition given_emotion :: "raw_mood \<Rightarrow> string" where
  "given_emotion mood_result =
     lower (case get_dominant_emotion mood_result of
              None \<Rightarrow> ''neutral''
            | Some e \<Rightarrow> if e = [] then ''neutral'' else e)"

definition given_score :: "raw_mood \<Rightarrow> real" where
  "given_score mood_result = (case get_mood_score mood_result of None \<Rightarrow> 0 | Some s \<Rightarrow> s)"

definition given_confidence :: "raw_mood \<Rightarrow> real" where
  "given_confidence mood_result = (case get_confidence mood_result of None \<Rightarrow> 0 | Some c \<Rightarrow> c)"

text \<open>\<^verbatim>\<open>validate_and_fix\<close>. The keywords of the input are read and never used.\<close>

definition validate_and_fix :: "raw_mood \<Rightarrow> string \<Rightarrow> error + mood_result" where
  "validate_and_fix mood_result original_text =
     (let emotion = given_emotion mood_result;
          score = given_score mood_result;
          confidence = given_confidence mood_result;
          score = max (- 1) (min 1 score)
      in case check_confidence original_text (emotion, score, confidence) of
           Inl err \<Rightarrow> Inl err
         | Inr checked1 \<Rightarrow>
          (case check_sign original_text checked1 of
             Inl err \<Rightarrow> Inl err
           | Inr checked3 \<Rightarrow>
            (case check_evidence original_text (check_range checked3) of
               Inl err \<Rightarrow> Inl err
             | Inr (emotion, score, confidence) \<Rightarrow>
                 Inr \<lparr>mood_score = py_round score 4,
                      dominant_emotion = emotion,
                      confidence = py_round confidence 4,
                      result_keywords = extract_quality_keywords original_text emotion\<rparr>)))"

section \<open>The analyzer's rule-based fallback (\<^verbatim>\<open>mood_analyzer.py\<close>)\<close>

text \<open>The dictionary \<open>emotions\<close> of \<^verbatim>\<open>_fallback_analysis\<close>, in source order.\<close>

definition fallback_emotions :: "(string \<times> string list) list" where
  "fallback_emotions =
   [(''happy'',
     [''amazing'', ''excited'', ''proud'', ''wonderful'', ''great'', ''fantastic'',
      ''love'', ''joy'', ''thrilled'', ''excellent'', ''awesome'', ''brilliant'',
      ''delighted'', ''happy'', ''grateful'', ''blessed'', ''favorite'']),
    (''sad'',
     [''sad'', ''depressed'', ''unhappy'', ''disappointed'', ''miserable'',
      ''awful'', ''terrible'', ''heartbroken'', ''devastated'']),
    (''anxious'',
     [''anxious'', ''worried'', ''stressed'', ''nervous'', ''overwhelmed'',
      ''scared'', ''fearful'', ''panic'', ''tense'']),
    (''calm'',
     [''calm'', ''peaceful'', ''relaxed'', ''serene'', ''tranquil'',
      ''content'', ''comfortable'', ''patient'', ''grounded'',
      ''present'', ''mindfulness'', ''mindful'', ''simple'', ''gentle'',
      ''stillness'', ''quiet'', ''steady'', ''slow'']),
    (''angry'', [''angry'', ''furious'', ''irritated'', ''annoyed'', ''rage''])]"

definition fallback_stop_words :: "string list" where
  "fallback_stop_words =
   [''the'', ''a'', ''an'', ''and'', ''or'', ''but'', ''in'', ''on'', ''at'', ''to'', ''for'',
    ''of'', ''with'', ''by'', ''from'', ''up'', ''about'', ''into'', ''during'', ''have'',
    ''has'', ''had'', ''been'', ''was'', ''were'', ''is'', ''am'', ''are'', ''this'', ''that'',
    ''these'', ''those'', ''i'', ''you'', ''he'', ''she'', ''it'', ''we'', ''they'', ''my'',
    ''your'', ''his'', ''her'', ''its'', ''our'', ''their'', ''because'', ''really'', ''today'',
    ''just'', ''even'', ''when'', ''not'', ''too'', ''very'', ''so'', ''how'', ''what'', ''when'',
    ''where'', ''who'', ''which'', ''than'', ''then'', ''now'', ''here'', ''there'', ''been'',
    ''myself'', ''sometimes'', ''went'', ''made'', ''woke'', ''found'', ''came'', ''went'']"

text \<open>The characters of \<^verbatim>\<open>w.strip('.,!?;:\'"')\<close>.\<close>

definition punctuation :: string where
  "punctuation = [CHR ''.'', CHR '','', CHR ''!'', CHR ''?'', CHR '';'', CHR '':'',
                  CHR 0x27, CHR 0x22]"

text \<open>\<open>word_list\<close>, whose set is \<open>words\<close>.\<close>

definition fallback_word_list :: "string \<Rightarrow> string list" where
  "fallback_word_list text = map (strip_chars punctuation) (split_ws (lower text))"

definition fallback_match_counts :: "string \<Rightarrow> (string \<times> nat) list" where
  "fallback_match_counts text =
     map (\<lambda>(emotion, keywords).
            (emotion, length (filter (\<lambda>kw. kw \<in> set (fallback_word_list text)) keywords)))
         fallback_emotions"

text \<open>The nested loop that fills \<open>found_keywords\<close>.\<close>

definition fallback_found_keywords :: "string \<Rightarrow> string list" where
  "fallback_found_keywords text =
     foldl (\<lambda>found_keywords kw.
              if kw \<in> set (fallback_word_list text) \<and> kw \<notin> set found_keywords
              then found_keywords @ [kw] else found_keywords)
           [] (concat (map snd fallback_emotions))"

text \<open>\<^verbatim>\<open>MoodAnalyzer._fallback_analysis\<close>.\<close>

definition fallback_analysis :: "string \<Rightarrow> mood_result" where
  "fallback_analysis text =
     (let match_counts = fallback_match_counts text;
          total_matches = sum_list (map snd match_counts);
          (dominant, score, conf) =
            (if total_matches = 0 then (''neutral'', 0, 1 / 2)
             else case py_max snd match_counts of
                    None \<Rightarrow> (''neutral'', 0, 1 / 2)
                  | Some (dominant, match_count) \<Rightarrow>
                      if dominant = ''happy''
                      then (dominant, min (85 / 100) (real match_count * (25 / 100)),
                            min (85 / 100) (65 / 100 + real match_count * (1 / 10)))
                      else if dominant = ''calm''
                      then (dominant, min (55 / 100) (real match_count * (18 / 100)),
                            min (85 / 100) (65 / 100 + real match_count * (1 / 10)))
                      else if dominant \<in> {''sad'', ''anxious'', ''angry''}
                      then (dominant, max (- (85 / 100)) (- (real match_count * (25 / 100))),
                            min (85 / 100) (65 / 100 + real match_count * (1 / 10)))
                      else (dominant, 0, 6 / 10));
          found_keywords = fallback_found_keywords text;
          other_words =
            filter (\<lambda>w. 4 < length w \<and> isalpha w \<and> w \<notin> set fallback_stop_words
                        \<and> w \<notin> set found_keywords)
                   (fallback_word_list text);
          final_keywords = take 5 (found_keywords @ other_words)
      in \<lparr>mood_score = score, dominant_emotion = dominant, confidence = conf,
          result_keywords =
            (if final_keywords = [] then [''journal'', ''entry''] else final_keywords)\<rparr>)"

section \<open>The model-backed analyzer (\<^verbatim>\<open>mood_analyzer.py\<close>)\<close>

text \<open>
  The JSON object decoded from the model's reply, with fields of the expected types;
  \<open>None\<close> is a missing key. The field \<open>keywords\<close> is a string, a list of strings or
  something else.
\<close>

datatype keywords_raw = KeywordString string | KeywordList "string list" | KeywordOther

record parsed_json =
  json_mood_score :: "real option"
  json_dominant_emotion :: "string option"
  json_confidence :: "real option"
  json_keywords :: "keywords_raw option"

text \<open>\<^verbatim>\<open>str.split(",")\<close>: the pieces between commas, empty ones included.\<close>

fun split_comma_from :: "string \<Rightarrow> string \<Rightarrow> string list" where
  "split_comma_from cur [] = [cur]"
| "split_comma_from cur (c # cs) =
     (if c = CHR '','' then cur # split_comma_from [] cs
      else split_comma_from (cur @ [c]) cs)"

definition valid_emotions :: "string set" where
  "valid_emotions = {''happy'', ''sad'', ''anxious'', ''calm'', ''angry'', ''neutral''}"

text \<open>\<^verbatim>\<open>MoodAnalyzer._parse_model_json\<close> from the decoded object on: defaults,
  normalised keywords, clamping, and the default for an unrecognised emotion.\<close>

definition parse_model_json :: "parsed_json \<Rightarrow> mood_result" where
  "parse_model_json parsed =
     (let score = (case json_mood_score parsed of None \<Rightarrow> 0 | Some s \<Rightarrow> s);
          emotion = lower (case json_dominant_emotion parsed of
                             None \<Rightarrow> ''neutral'' | Some e \<Rightarrow> e);
          conf = (case json_confidence parsed of None \<Rightarrow> 0 | Some c \<Rightarrow> c);
          kws = (case json_keywords parsed of
                   None \<Rightarrow> []
                 | Some (KeywordString str) \<Rightarrow>
                     filter (\<lambda>k. k \<noteq> []) (map strip (split_comma_from [] str))
                 | Some (KeywordList ks) \<Rightarrow> filter (\<lambda>k. k \<noteq> []) (map strip ks)
                 | Some KeywordOther \<Rightarrow> []);
          score = max (- 1) (min 1 score);
          conf = max 0 (min 1 conf);
          emotion = (if emotion \<notin> valid_emotions then ''neutral'' else emotion)
      in \<lparr>mood_score = score, dominant_emotion = emotion, confidence = conf,
          result_keywords = kws\<rparr>)"

text \<open>\<^verbatim>\<open>MoodAnalyzer._fix_emotion_score_consistency\<close>.\<close>

definition fix_emotion_score_consistency :: "mood_result \<Rightarrow> string \<Rightarrow> mood_result" where
  "fix_emotion_score_consistency result original_text =
     (let emotion = dominant_emotion result;
          score = mood_score result
      in if emotion \<in> positive_emotions \<and> score < 0
         then result\<lparr>mood_score := \<bar>score\<bar>\<rparr>
         else if emotion \<in> negative_emotions \<and> 0 < score
         then result\<lparr>mood_score := - \<bar>score\<bar>\<rparr>
         else if emotion = ''neutral'' \<and> 3 / 10 < \<bar>score\<bar>
         then (let fallback = fallback_analysis original_text
               in if dominant_emotion fallback \<noteq> ''neutral'' then fallback
                  else result\<lparr>mood_score := 0\<rparr>)
         else result)"

text \<open>\<^verbatim>\<open>MoodAnalyzer._neutral_result\<close>.\<close>

definition neutral_result :: mood_result where
  "neutral_result = \<lparr>mood_score = 0, dominant_emotion = ''neutral'', confidence = 1 / 2,
                     result_keywords = [''entry'']\<rparr>"

text \<open>
  What one request to the model service ends in: a timeout, another transport error, a
  body that is not JSON, a JSON body that is not an object, an object without a
  \<open>response\<close> string, a response text from which \<^verbatim>\<open>_parse_model_json\<close> raises, or
  a response text that decodes to an object.
\<close>

datatype ollama_reply =
  Timeout | RequestException | InvalidBody | BodyNotObject | MissingResponse | ParseFailure
  | Parsed parsed_json

text \<open>
  \<^verbatim>\<open>MoodAnalyzer.analyze_entry\<close>. The service is the function \<open>post\<close> from the entry
  text in the prompt (\<^verbatim>\<open>text.strip()\<close>) to the reply; the second component of the
  result lists the requests sent, in order. On a JSON body that is not an object
  \<^verbatim>\<open>data.get\<close> raises outside every \<^verbatim>\<open>try\<close>, so the call ends in that error.
\<close>

definition analyze_entry ::
  "(string \<Rightarrow> ollama_reply) \<Rightarrow> string \<Rightarrow> (error + mood_result) \<times> string list" where
  "analyze_entry post text =
     (if text = [] \<or> strip text = [] then (Inr neutral_result, [])
      else (case post (strip text) of
              Timeout \<Rightarrow> Inr (fallback_analysis text)
            | RequestException \<Rightarrow> Inr (fallback_analysis text)
            | InvalidBody \<Rightarrow> Inr (fallback_analysis text)
            | BodyNotObject \<Rightarrow> Inl AttributeError
            | MissingResponse \<Rightarrow> Inr (fallback_analysis text)
            | ParseFailure \<Rightarrow> Inr (fallback_analysis text)
            | Parsed parsed \<Rightarrow>
                Inr (fix_emotion_score_consistency (parse_model_json parsed) text),
            [strip text]))"

text \<open>\<^verbatim>\<open>MoodResult.to_dict\<close>.\<close>

definition to_dict :: "mood_result \<Rightarrow> raw_mood" where
  "to_dict r = \<lparr>get_mood_score = Some (mood_score r),
                get_dominant_emotion = Some (dominant_emotion r),
                get_confidence = Some (confidence r),
                get_keywords = Some (result_keywords r)\<rparr>"


section \<open>Properties of the helpers\<close>

subsection \<open>Rounding\<close>

lemma round_half_even_of_int: "round_half_even (of_int k) = k"
  by (simp add: round_half_even_def)

lemma round_half_even_lower: "of_int k \<le> x \<Longrightarrow> k \<le> round_half_even x"
proof -
  assume "of_int k \<le> x"
  then have "k \<le> \<lfloor>x\<rfloor>" by (simp add: le_floor_iff)
  then show ?thesis by (auto simp: round_half_even_def Let_def)
qed

lemma round_half_even_upper: "x \<le> of_int k \<Longrightarrow> round_half_even x \<le> k"
proof (cases "x = of_int k")
  case True
  then show ?thesis by (simp add: round_half_even_of_int)
next
  case False
  assume "x \<le> of_int k"
  with False have "x < of_int k" by simp
  then have "\<lfloor>x\<rfloor> < k" by (simp add: floor_less_iff)
  then show ?thesis by (auto simp: round_half_even_def Let_def)
qed

lemma py_round_fixed: "x * 10 ^ n = of_int k \<Longrightarrow> py_round x n = x"
  by (simp add: py_round_def round_half_even_of_int field_simps)

lemma py_round_scaled: "py_round x n * 10 ^ n = of_int (round_half_even (x * 10 ^ n))"
  by (simp add: py_round_def)

lemma py_round_idem: "py_round (py_round x n) n = py_round x n"
  by (rule py_round_fixed [OF py_round_scaled])

lemma py_round_lower: "a * 10 ^ n = of_int k \<Longrightarrow> a \<le> x \<Longrightarrow> a \<le> py_round x n"
proof -
  assume a: "a * 10 ^ n = of_int k" and le: "a \<le> x"
  from le have "a * 10 ^ n \<le> x * 10 ^ n" by (simp add: mult_right_mono)
  with a have "k \<le> round_half_even (x * 10 ^ n)" by (simp add: round_half_even_lower)
  then have "(of_int k :: real) \<le> of_int (round_half_even (x * 10 ^ n))" by simp
  with a have "a * 10 ^ n \<le> py_round x n * 10 ^ n" by (simp add: py_round_scaled)
  then show ?thesis by simp
qed

lemma py_round_upper: "a * 10 ^ n = of_int k \<Longrightarrow> x \<le> a \<Longrightarrow> py_round x n \<le> a"
proof -
  assume a: "a * 10 ^ n = of_int k" and le: "x \<le> a"
  from le have "x * 10 ^ n \<le> a * 10 ^ n" by (simp add: mult_right_mono)
  with a have "round_half_even (x * 10 ^ n) \<le> k" by (simp add: round_half_even_upper)
  then have "(of_int (round_half_even (x * 10 ^ n)) :: real) \<le> of_int k" by simp
  with a have "py_round x n * 10 ^ n \<le> a * 10 ^ n" by (simp add: py_round_scaled)
  then show ?thesis by simp
qed

lemma py_round_coarser: "x * 10 ^ 2 = of_int k \<Longrightarrow> py_round x 4 = x"
proof -
  assume "x * 10 ^ 2 = of_int k"
  then have "x * 10 ^ 4 = of_int (k * 100)" by simp
  then show ?thesis by (rule py_round_fixed)
qed

subsection \<open>Maximum\<close>

lemma max_from_mem: "max_from key b xs \<in> set (b # xs)"
  by (induction xs arbitrary: b) (auto split: if_splits)

lemma max_from_ge: "y \<in> set (b # xs) \<Longrightarrow> key y \<le> key (max_from key b xs)"
proof (induction xs arbitrary: b y)
  case Nil
  then show ?case by simp
next
  case (Cons x xs)
  let ?b = "if key b < key x then x else b"
  have b: "key b \<le> key ?b" and x: "key x \<le> key ?b" by simp_all
  have top: "key ?b \<le> key (max_from key ?b xs)"
    by (rule Cons.IH) simp
  from Cons.prems consider "y = b" | "y = x" | "y \<in> set xs" by auto
  then show ?case
  proof cases
    case 1
    with b top show ?thesis by simp
  next
    case 2
    with x top show ?thesis by simp
  next
    case 3
    then have "key y \<le> key (max_from key ?b xs)"
      by (intro Cons.IH) simp
    then show ?thesis by simp
  qed
qed

lemma py_max_Some:
  "xs \<noteq> [] \<Longrightarrow> \<exists>x. py_max key xs = Some x \<and> x \<in> set xs \<and> (\<forall>y \<in> set xs. key y \<le> key x)"
proof (cases xs)
  case Nil
  assume "xs \<noteq> []"
  with Nil show ?thesis by simp
next
  case (Cons a rest)
  have "max_from key a rest \<in> set (a # rest)" by (rule max_from_mem)
  moreover have "\<forall>y \<in> set (a # rest). key y \<le> key (max_from key a rest)"
    by (intro ballI max_from_ge)
  ultimately show ?thesis using Cons by (simp add: py_max_def)
qed

subsection \<open>Counts\<close>

lemma EMOTION_KEYWORDS_shape:
  "\<exists>h s a c g n. EMOTION_KEYWORDS =
     [(''happy'', h), (''sad'', s), (''anxious'', a), (''calm'', c), (''angry'', g), (''neutral'', n)]"
  by (simp add: EMOTION_KEYWORDS_def)

lemma counts_shape:
  "\<exists>h s a c g n. count_emotion_matches tokens =
     [(''happy'', h), (''sad'', s), (''anxious'', a), (''calm'', c), (''angry'', g), (''neutral'', n)]"
proof -
  from EMOTION_KEYWORDS_shape obtain h s a c g n where eq:
    "EMOTION_KEYWORDS =
       [(''happy'', h), (''sad'', s), (''anxious'', a), (''calm'', c), (''angry'', g), (''neutral'', n)]"
    by blast
  show ?thesis unfolding count_emotion_matches_def eq by (intro exI) simp
qed

text \<open>The primary counts of a text are the evidence of the five non-neutral emotions.\<close>

lemma primary_counts_evidence:
  "filter (\<lambda>(e, c). e \<noteq> ''neutral'') (count_emotion_matches (tokenize t)) =
     [(''happy'', evidence t ''happy''), (''sad'', evidence t ''sad''),
      (''anxious'', evidence t ''anxious''), (''calm'', evidence t ''calm''),
      (''angry'', evidence t ''angry'')]"
proof -
  from counts_shape obtain h s a c g n where
    "count_emotion_matches (tokenize t) =
       [(''happy'', h), (''sad'', s), (''anxious'', a), (''calm'', c), (''angry'', g), (''neutral'', n)]"
    by blast
  then show ?thesis by (simp add: evidence_def)
qed

lemma evidence_unknown: "e \<notin> valid_emotions \<Longrightarrow> evidence t e = 0"
proof -
  assume e: "e \<notin> valid_emotions"
  from counts_shape obtain h s a c g n where
    "count_emotion_matches (tokenize t) =
       [(''happy'', h), (''sad'', s), (''anxious'', a), (''calm'', c), (''angry'', g), (''neutral'', n)]"
    by blast
  with e show ?thesis by (simp add: evidence_def valid_emotions_def)
qed

lemma ranges_lookup:
  "map_of EMOTION_SCORE_RANGES ''happy'' = Some (2 / 10, 1)"
  "map_of EMOTION_SCORE_RANGES ''calm'' = Some (1 / 10, 6 / 10)"
  "map_of EMOTION_SCORE_RANGES ''neutral'' = Some (- (15 / 100), 15 / 100)"
  "map_of EMOTION_SCORE_RANGES ''anxious'' = Some (- (8 / 10), - (1 / 10))"
  "map_of EMOTION_SCORE_RANGES ''sad'' = Some (- (9 / 10), - (2 / 10))"
  "map_of EMOTION_SCORE_RANGES ''angry'' = Some (- (9 / 10), - (3 / 10))"
  by (simp_all add: EMOTION_SCORE_RANGES_def)

lemma ranges_unknown: "e \<notin> valid_emotions \<Longrightarrow> map_of EMOTION_SCORE_RANGES e = None"
  by (simp add: EMOTION_SCORE_RANGES_def valid_emotions_def)

text \<open>Every range of the table: its ends are whole hundredths inside [-1, 1].\<close>

lemma ranges_hundredths:
  assumes "map_of EMOTION_SCORE_RANGES e = Some (lo, hi)"
  shows "\<exists>k l. lo = of_int k / 100 \<and> hi = of_int l / 100 \<and> k \<le> l \<and> - 100 \<le> k \<and> l \<le> 100"
proof -
  from assms have "(e, lo, hi) \<in> set EMOTION_SCORE_RANGES" by (rule map_of_SomeD)
  then consider "lo = 2 / 10 \<and> hi = 1" | "lo = 1 / 10 \<and> hi = 6 / 10"
    | "lo = - (15 / 100) \<and> hi = 15 / 100" | "lo = - (8 / 10) \<and> hi = - (1 / 10)"
    | "lo = - (9 / 10) \<and> hi = - (2 / 10)" | "lo = - (9 / 10) \<and> hi = - (3 / 10)"
    by (auto simp: EMOTION_SCORE_RANGES_def)
  then show ?thesis
  proof cases
    case 1 then show ?thesis by (intro exI [of _ 20] exI [of _ 100]) simp
  next
    case 2 then show ?thesis by (intro exI [of _ 10] exI [of _ 60]) simp
  next
    case 3 then show ?thesis by (intro exI [of _ "- 15"] exI [of _ 15]) simp
  next
    case 4 then show ?thesis by (intro exI [of _ "- 80"] exI [of _ "- 10"]) simp
  next
    case 5 then show ?thesis by (intro exI [of _ "- 90"] exI [of _ "- 20"]) simp
  next
    case 6 then show ?thesis by (intro exI [of _ "- 90"] exI [of _ "- 30"]) simp
  qed
qed

lemma ranges_valid: "map_of EMOTION_SCORE_RANGES e = Some r \<Longrightarrow> e \<in> valid_emotions"
  using ranges_unknown [of e] by (cases "e \<in> valid_emotions") simp_all

lemma valid_ranges: "e \<in> valid_emotions \<Longrightarrow> \<exists>lo hi. map_of EMOTION_SCORE_RANGES e = Some (lo, hi)"
  unfolding valid_emotions_def by (elim insertE emptyE; simp only: ranges_lookup; blast)

text \<open>Rounding to two or four digits keeps a score inside a range of the table.\<close>

lemma py_round_in_range:
  assumes "map_of EMOTION_SCORE_RANGES e = Some (lo, hi)" and "lo \<le> x" and "x \<le> hi"
    and "n = 2 \<or> n = 4"
  shows "lo \<le> py_round x n \<and> py_round x n \<le> hi"
proof -
  from ranges_hundredths [OF assms(1)] obtain k l where
    lo: "lo = of_int k / 100" and hi: "hi = of_int l / 100" by blast
  from assms(4) show ?thesis
  proof
    assume n: "n = 2"
    have "lo * 10 ^ n = of_int k" "hi * 10 ^ n = of_int l" using lo hi n by simp_all
    then show ?thesis using assms(2,3) by (blast intro: py_round_lower py_round_upper)
  next
    assume n: "n = 4"
    have "lo * 10 ^ n = of_int (k * 100)" "hi * 10 ^ n = of_int (l * 100)"
      using lo hi n by simp_all
    then show ?thesis using assms(2,3) by (blast intro: py_round_lower py_round_upper)
  qed
qed

lemma range_bounds:
  assumes "map_of EMOTION_SCORE_RANGES e = Some (lo, hi)"
  shows "lo \<le> hi" and "- 1 \<le> lo" and "hi \<le> 1"
proof -
  from ranges_hundredths [OF assms] obtain k l where
    f: "lo = of_int k / 100" "hi = of_int l / 100" "k \<le> l" "- 100 \<le> k" "l \<le> 100" by blast
  from f(1,2,3) show "lo \<le> hi" by (simp add: divide_right_mono)
  from f(1,4) show "- 1 \<le> lo" by simp
  from f(2,5) show "hi \<le> 1" by simp
qed

lemma primary_emotions: "positive_emotions \<union> negative_emotions = {''happy'', ''calm'', ''sad'', ''anxious'', ''angry''}"
  by (auto simp: positive_emotions_def negative_emotions_def)

lemma primary_valid: "e \<in> positive_emotions \<union> negative_emotions \<Longrightarrow> e \<in> valid_emotions \<and> e \<noteq> ''neutral'' \<and> e \<noteq> []"
  by (auto simp: positive_emotions_def negative_emotions_def valid_emotions_def)

lemma best_primary:
  "\<exists>be. py_max snd (filter (\<lambda>(e, c). e \<noteq> ''neutral'') (count_emotion_matches (tokenize t)))
           = Some (be, evidence t be)
        \<and> be \<in> positive_emotions \<union> negative_emotions
        \<and> (\<forall>e \<in> positive_emotions \<union> negative_emotions. evidence t e \<le> evidence t be)"
proof -
  let ?pc = "[(''happy'', evidence t ''happy''), (''sad'', evidence t ''sad''),
      (''anxious'', evidence t ''anxious''), (''calm'', evidence t ''calm''),
      (''angry'', evidence t ''angry'')]"
  have "?pc \<noteq> []" by simp
  from py_max_Some [OF this, of snd] obtain x where
    x: "py_max snd ?pc = Some x" "x \<in> set ?pc" "\<forall>y \<in> set ?pc. snd y \<le> snd x" by blast
  from x(2) have shape: "x = (fst x, evidence t (fst x))"
    and mem: "fst x \<in> positive_emotions \<union> negative_emotions"
    by (auto simp: primary_emotions)
  have "\<forall>e \<in> positive_emotions \<union> negative_emotions. evidence t e \<le> evidence t (fst x)"
  proof
    fix e assume "e \<in> positive_emotions \<union> negative_emotions"
    then have "(e, evidence t e) \<in> set ?pc" by (auto simp: primary_emotions)
    with x(3) have "snd (e, evidence t e) \<le> snd x" by blast
    with shape show "evidence t e \<le> evidence t (fst x)" by (metis snd_conv)
  qed
  with x(1) shape mem show ?thesis
    unfolding primary_counts_evidence by metis
qed

lemma primary_total:
  "sum_list (map snd (filter (\<lambda>(e, c). e \<noteq> ''neutral'') (count_emotion_matches (tokenize t)))) = 0
     \<longleftrightarrow> (\<forall>e \<in> positive_emotions \<union> negative_emotions. evidence t e = 0)"
  unfolding primary_counts_evidence by (auto simp: primary_emotions)

lemma detect_neutral:
  assumes "\<forall>e \<in> positive_emotions \<union> negative_emotions. evidence t e = 0"
  shows "detect_emotion_from_text t = Inr (''neutral'', 0, 1 / 2)"
  using assms primary_total [of t] by (simp add: detect_emotion_from_text_def Let_def)

lemma detect_primary:
  assumes "\<not> (\<forall>e \<in> positive_emotions \<union> negative_emotions. evidence t e = 0)"
  shows "\<exists>e lo hi. e \<in> positive_emotions \<union> negative_emotions \<and> 0 < evidence t e
           \<and> map_of EMOTION_SCORE_RANGES e = Some (lo, hi)
           \<and> detect_emotion_from_text t =
               Inr (e, py_round (max lo (min hi (lo + (hi - lo) * min 1 (real (evidence t e) / 5)))) 2,
                    min (90 / 100) (55 / 100 + real (evidence t e) * (8 / 100)))"
proof -
  from best_primary [of t] obtain be where
    best: "py_max snd (filter (\<lambda>(e, c). e \<noteq> ''neutral'') (count_emotion_matches (tokenize t)))
             = Some (be, evidence t be)"
    and mem: "be \<in> positive_emotions \<union> negative_emotions"
    and top: "\<forall>e \<in> positive_emotions \<union> negative_emotions. evidence t e \<le> evidence t be"
    by blast
  from assms obtain e where "e \<in> positive_emotions \<union> negative_emotions" "0 < evidence t e"
    by auto
  with top have pos: "0 < evidence t be" by (metis gr_zeroI le_zero_eq)
  from mem primary_valid valid_ranges obtain lo hi where
    rng: "map_of EMOTION_SCORE_RANGES be = Some (lo, hi)" by blast
  from assms primary_total [of t] have
    nz: "sum_list (map snd (filter (\<lambda>(e, c). e \<noteq> ''neutral'') (count_emotion_matches (tokenize t)))) \<noteq> 0"
    by simp
  have "detect_emotion_from_text t =
          Inr (be, py_round (max lo (min hi (lo + (hi - lo) * min 1 (real (evidence t be) / 5)))) 2,
               min (90 / 100) (55 / 100 + real (evidence t be) * (8 / 100)))"
    unfolding detect_emotion_from_text_def Let_def
    by (subst if_not_P [OF nz]) (simp add: best rng)
  with mem pos rng show ?thesis by blast
qed

lemma detect_total: "\<exists>e s c. detect_emotion_from_text t = Inr (e, s, c)"
  using detect_neutral [of t] detect_primary [of t] by blast

lemma confidence_hundredth:
  "\<exists>k. min (90 / 100) (55 / 100 + real n * (8 / 100)) * 10 ^ 2 = real_of_int k"
proof (cases "(90 / 100 :: real) \<le> 55 / 100 + real n * (8 / 100)")
  case True
  then have "min (90 / 100) (55 / 100 + real n * (8 / 100)) * 10 ^ 2 = real_of_int 90"
    by (simp add: min_def)
  then show ?thesis ..
next
  case False
  then have "min (90 / 100) (55 / 100 + real n * (8 / 100)) * 10 ^ 2 = real_of_int (55 + 8 * int n)"
    by (simp add: min_def field_simps)
  then show ?thesis ..
qed

text \<open>What the detector returns needs no correction.\<close>

lemma detect_settled:
  assumes "detect_emotion_from_text t = Inr (e, s, c)"
  shows "e \<in> valid_emotions"
    and "1 / 2 \<le> c"
    and "c = 1 / 2 \<or> 55 / 100 \<le> c"
    and "\<exists>lo hi. map_of EMOTION_SCORE_RANGES e = Some (lo, hi) \<and> lo \<le> s \<and> s \<le> hi"
    and "evidence t e = 0 \<Longrightarrow> e' \<in> positive_emotions \<union> negative_emotions \<Longrightarrow> evidence t e' = 0"
    and "py_round s 4 = s"
    and "py_round c 4 = c"
proof -
  have all: "e \<in> valid_emotions \<and> (c = 1 / 2 \<or> 55 / 100 \<le> c)
      \<and> (\<exists>lo hi. map_of EMOTION_SCORE_RANGES e = Some (lo, hi) \<and> lo \<le> s \<and> s \<le> hi)
      \<and> (evidence t e = 0 \<longrightarrow> (\<forall>e' \<in> positive_emotions \<union> negative_emotions. evidence t e' = 0))
      \<and> py_round s 4 = s \<and> py_round c 4 = c"
  proof (cases "\<forall>e \<in> positive_emotions \<union> negative_emotions. evidence t e = 0")
    case True
    from detect_neutral [OF True] assms have "Inr (e, s, c) = (Inr (''neutral'', 0, 1 / 2) :: error + _)"
      by simp
    then have eq: "e = ''neutral''" "s = 0" "c = 1 / 2" by (simp_all only: sum.inject prod.inject)
    have r0: "py_round s 4 = s" unfolding eq by (rule py_round_fixed [of _ _ 0]) simp
    have r1: "py_round c 4 = c" unfolding eq by (rule py_round_fixed [of _ _ 5000]) simp
    have v: "e \<in> valid_emotions" unfolding eq by (simp add: valid_emotions_def)
    have "map_of EMOTION_SCORE_RANGES e = Some (- (15 / 100), 15 / 100)
            \<and> - (15 / 100) \<le> s \<and> s \<le> 15 / 100"
      unfolding eq by (simp add: ranges_lookup)
    then have rg: "\<exists>lo hi. map_of EMOTION_SCORE_RANGES e = Some (lo, hi) \<and> lo \<le> s \<and> s \<le> hi"
      by blast
    from r0 r1 v rg True eq(3) show ?thesis by blast
  next
    case False
    from detect_primary [OF False] assms obtain lo hi where
      mem: "e \<in> positive_emotions \<union> negative_emotions" and pos: "0 < evidence t e"
      and rng: "map_of EMOTION_SCORE_RANGES e = Some (lo, hi)"
      and s: "s = py_round (max lo (min hi (lo + (hi - lo) * min 1 (real (evidence t e) / 5)))) 2"
      and c: "c = min (90 / 100) (55 / 100 + real (evidence t e) * (8 / 100))"
      by auto
    note rb = range_bounds [OF rng]
    have "lo \<le> max lo (min hi (lo + (hi - lo) * min 1 (real (evidence t e) / 5)))" by simp
    moreover have "max lo (min hi (lo + (hi - lo) * min 1 (real (evidence t e) / 5))) \<le> hi"
      using rb(1) by simp
    ultimately have inr: "lo \<le> s \<and> s \<le> hi"
      unfolding s using rng by (intro py_round_in_range) simp_all
    have s4: "py_round s 4 = s"
      unfolding s by (rule py_round_coarser [OF py_round_scaled])
    from confidence_hundredth [of "evidence t e"] obtain k where "c * 10 ^ 2 = real_of_int k"
      unfolding c by blast
    then have c4: "py_round c 4 = c" by (rule py_round_coarser)
    have cge: "55 / 100 \<le> c" unfolding c by simp
    from mem primary_valid have "e \<in> valid_emotions" by blast
    with pos rng inr s4 c4 cge show ?thesis by auto
  qed
  then show "e \<in> valid_emotions" "c = 1 / 2 \<or> 55 / 100 \<le> c"
    "\<exists>lo hi. map_of EMOTION_SCORE_RANGES e = Some (lo, hi) \<and> lo \<le> s \<and> s \<le> hi"
    "py_round s 4 = s" "py_round c 4 = c"
    by blast+
  from all show "1 / 2 \<le> c" by auto
  from all show "evidence t e = 0 \<Longrightarrow> e' \<in> positive_emotions \<union> negative_emotions \<Longrightarrow> evidence t e' = 0"
    by blast
qed

subsection \<open>The checks on a triple that needs no correction\<close>

lemma check_confidence_keep: "1 / 2 \<le> c \<Longrightarrow> check_confidence t (e, s, c) = Inr (e, s, c)"
  by (simp add: check_confidence_def)

lemma check_sign_keep:
  assumes "\<And>lo hi. map_of EMOTION_SCORE_RANGES e = Some (lo, hi) \<Longrightarrow> lo \<le> s \<and> s \<le> hi"
  shows "check_sign t (e, s, c) = Inr (e, s, c)"
proof -
  have "e = ''happy'' \<Longrightarrow> 0 \<le> s"
    using assms [of "2 / 10" 1] by (simp add: ranges_lookup)
  moreover have "e = ''calm'' \<Longrightarrow> 0 \<le> s"
    using assms [of "1 / 10" "6 / 10"] by (simp add: ranges_lookup)
  ultimately have p: "e \<in> positive_emotions \<Longrightarrow> 0 \<le> s"
    by (auto simp: positive_emotions_def)
  have "e = ''sad'' \<Longrightarrow> s \<le> 0"
    using assms [of "- (9 / 10)" "- (2 / 10)"] by (simp add: ranges_lookup)
  moreover have "e = ''anxious'' \<Longrightarrow> s \<le> 0"
    using assms [of "- (8 / 10)" "- (1 / 10)"] by (simp add: ranges_lookup)
  moreover have "e = ''angry'' \<Longrightarrow> s \<le> 0"
    using assms [of "- (9 / 10)" "- (3 / 10)"] by (simp add: ranges_lookup)
  ultimately have n: "e \<in> negative_emotions \<Longrightarrow> s \<le> 0"
    by (auto simp: negative_emotions_def)
  have z: "e = ''neutral'' \<Longrightarrow> \<bar>s\<bar> \<le> 1 / 4"
    using assms [of "- (15 / 100)" "15 / 100"] by (auto simp: ranges_lookup)
  from p n z show ?thesis by (auto simp: check_sign_def)
qed

lemma check_range_keep:
  assumes "\<And>lo hi. map_of EMOTION_SCORE_RANGES e = Some (lo, hi) \<Longrightarrow> lo \<le> s \<and> s \<le> hi"
  shows "check_range (e, s, c) = (e, s, c)"
  using assms by (auto simp: check_range_def Let_def split: option.splits)

lemma check_evidence_eq:
  "check_evidence t (e, s, c) =
     (if evidence t e = 0 \<and> \<not> (\<forall>e' \<in> positive_emotions \<union> negative_emotions. evidence t e' = 0)
      then detect_emotion_from_text t else Inr (e, s, c))"
proof -
  from best_primary [of t] obtain be where
    best: "py_max snd (filter (\<lambda>(e, c). e \<noteq> ''neutral'') (count_emotion_matches (tokenize t)))
             = Some (be, evidence t be)"
    and mem: "be \<in> positive_emotions \<union> negative_emotions"
    and top: "\<forall>e \<in> positive_emotions \<union> negative_emotions. evidence t e \<le> evidence t be"
    by blast
  from mem primary_valid have ne: "be \<noteq> []" by blast
  have pos: "0 < evidence t be \<longleftrightarrow> \<not> (\<forall>e' \<in> positive_emotions \<union> negative_emotions. evidence t e' = 0)"
    using mem top by (metis gr_zeroI le_zero_eq less_numeral_extra(3))
  show ?thesis
    unfolding check_evidence_def Let_def prod.case best option.case
    using ne pos by (simp add: evidence_def)
qed

lemma check_evidence_keep:
  assumes "evidence t e = 0 \<Longrightarrow> \<forall>e' \<in> positive_emotions \<union> negative_emotions. evidence t e' = 0"
  shows "check_evidence t (e, s, c) = Inr (e, s, c)"
  using assms by (auto simp: check_evidence_eq)

lemma detect_unit_interval:
  assumes "detect_emotion_from_text t = Inr (e, s, c)"
  shows "- 1 \<le> s \<and> s \<le> 1"
proof -
  from detect_settled(4) [OF assms] obtain lo hi where
    rng: "map_of EMOTION_SCORE_RANGES e = Some (lo, hi)" and "lo \<le> s" "s \<le> hi" by blast
  with range_bounds(2,3) [OF rng] show ?thesis by simp
qed

lemma detect_in_range:
  assumes "detect_emotion_from_text t = Inr (e, s, c)"
    and "map_of EMOTION_SCORE_RANGES e = Some (lo, hi)"
  shows "lo \<le> s \<and> s \<le> hi"
  using detect_settled(4) [OF assms(1)] assms(2) by auto

text \<open>The detector's own result passes every check unchanged.\<close>

lemma detect_keep:
  assumes "detect_emotion_from_text t = Inr (e, s, c)"
  shows "check_confidence t (e, s, c) = Inr (e, s, c)"
    and "check_sign t (e, s, c) = Inr (e, s, c)"
    and "check_range (e, s, c) = (e, s, c)"
    and "check_evidence t (e, s, c) = Inr (e, s, c)"
proof -
  show "check_confidence t (e, s, c) = Inr (e, s, c)"
    using detect_settled(2) [OF assms] by (rule check_confidence_keep)
  show "check_sign t (e, s, c) = Inr (e, s, c)"
    using detect_in_range [OF assms] by (rule check_sign_keep)
  show "check_range (e, s, c) = (e, s, c)"
    using detect_in_range [OF assms] by (rule check_range_keep)
  show "check_evidence t (e, s, c) = Inr (e, s, c)"
    using detect_settled(5) [OF assms] by (intro check_evidence_keep ballI)
qed

text \<open>CHECK 1 to CHECK 5 in turn. A triple either still carries the emotion and the
  confidence it came with, the confidence being at least one half, or it is the
  detector's result.\<close>

lemma check_confidence_outcome:
  assumes "- 1 \<le> s0" "s0 \<le> 1"
  shows "\<exists>e s c. check_confidence t (e0, s0, c0) = Inr (e, s, c) \<and> - 1 \<le> s \<and> s \<le> 1
           \<and> (e = e0 \<and> c = c0 \<and> 1 / 2 \<le> c0 \<or> detect_emotion_from_text t = Inr (e, s, c))
           \<and> (c0 < 1 / 2 \<longrightarrow> detect_emotion_from_text t = Inr (e, s, c))"
proof (cases "c0 < 1 / 2")
  case True
  from detect_total obtain e s c where d: "detect_emotion_from_text t = Inr (e, s, c)" by blast
  with True have "check_confidence t (e0, s0, c0) = Inr (e, s, c)"
    by (simp add: check_confidence_def)
  with d detect_unit_interval [OF d] show ?thesis by blast
next
  case False
  then have "check_confidence t (e0, s0, c0) = Inr (e0, s0, c0)"
    by (simp add: check_confidence_def)
  with False assms show ?thesis by auto
qed

lemma check_sign_outcome:
  assumes "- 1 \<le> s1" "s1 \<le> 1"
    and "e1 = e0 \<and> c1 = c0 \<and> 1 / 2 \<le> c0 \<or> detect_emotion_from_text t = Inr (e1, s1, c1)"
  shows "\<exists>e s c. check_sign t (e1, s1, c1) = Inr (e, s, c) \<and> - 1 \<le> s \<and> s \<le> 1
           \<and> (e = e0 \<and> c = c0 \<and> 1 / 2 \<le> c0 \<or> detect_emotion_from_text t = Inr (e, s, c))
           \<and> (detect_emotion_from_text t = Inr (e1, s1, c1) \<longrightarrow> (e, s, c) = (e1, s1, c1))"
proof (cases "detect_emotion_from_text t = Inr (e1, s1, c1)")
  case True
  from detect_keep(2) [OF True] True assms(1,2) show ?thesis by blast
next
  case False
  with assms(3) have keep: "e1 = e0 \<and> c1 = c0 \<and> 1 / 2 \<le> c0" by blast
  from detect_total obtain e s c where d: "detect_emotion_from_text t = Inr (e, s, c)" by blast
  note dq = detect_unit_interval [OF d]
  consider (pos) "e1 \<in> positive_emotions \<and> s1 < 0"
    | (neg) "\<not> (e1 \<in> positive_emotions \<and> s1 < 0)" "e1 \<in> negative_emotions \<and> 0 < s1"
    | (neu) "\<not> (e1 \<in> positive_emotions \<and> s1 < 0)" "\<not> (e1 \<in> negative_emotions \<and> 0 < s1)"
        "e1 = ''neutral'' \<and> 1 / 4 < \<bar>s1\<bar>"
    | (none) "\<not> (e1 \<in> positive_emotions \<and> s1 < 0)" "\<not> (e1 \<in> negative_emotions \<and> 0 < s1)"
        "\<not> (e1 = ''neutral'' \<and> 1 / 4 < \<bar>s1\<bar>)"
    by blast
  then show ?thesis
  proof cases
    case pos
    then have "check_sign t (e1, s1, c1) = Inr (e1, \<bar>s1\<bar>, c1)" by (simp add: check_sign_def)
    moreover have "- 1 \<le> \<bar>s1\<bar> \<and> \<bar>s1\<bar> \<le> 1" using assms(1,2) by (auto simp: abs_if)
    ultimately show ?thesis using keep False by blast
  next
    case neg
    then have "check_sign t (e1, s1, c1) = Inr (e1, - \<bar>s1\<bar>, c1)" by (simp add: check_sign_def)
    moreover have "- 1 \<le> - \<bar>s1\<bar> \<and> - \<bar>s1\<bar> \<le> 1" using assms(1,2) by (auto simp: abs_if)
    ultimately show ?thesis using keep False by blast
  next
    case neu
    then have "check_sign t (e1, s1, c1) = Inr (e, s, c)"
      by (simp add: check_sign_def d positive_emotions_def negative_emotions_def)
    with d dq False show ?thesis by blast
  next
    case none
    then have "check_sign t (e1, s1, c1) = Inr (e1, s1, c1)" by (auto simp: check_sign_def)
    with keep assms(1,2) show ?thesis by blast
  qed
qed

lemma check_range_outcome:
  assumes "- 1 \<le> s2" "s2 \<le> 1"
    and "e2 = e0 \<and> c2 = c0 \<and> 1 / 2 \<le> c0 \<or> detect_emotion_from_text t = Inr (e2, s2, c2)"
  shows "\<exists>s. check_range (e2, s2, c2) = (e2, s, c2) \<and> - 1 \<le> s \<and> s \<le> 1
           \<and> (e2 = e0 \<and> c2 = c0 \<and> 1 / 2 \<le> c0 \<or> detect_emotion_from_text t = Inr (e2, s, c2))
           \<and> (\<forall>lo hi. map_of EMOTION_SCORE_RANGES e2 = Some (lo, hi) \<longrightarrow> lo \<le> s \<and> s \<le> hi)
           \<and> (detect_emotion_from_text t = Inr (e2, s2, c2) \<longrightarrow> s = s2)"
proof (cases "detect_emotion_from_text t = Inr (e2, s2, c2)")
  case True
  from detect_keep(3) [OF True] detect_in_range [OF True] True assms(1,2) show ?thesis by blast
next
  case False
  with assms(3) have keep: "e2 = e0 \<and> c2 = c0 \<and> 1 / 2 \<le> c0" by blast
  show ?thesis
  proof (cases "map_of EMOTION_SCORE_RANGES e2")
    case None
    then have "check_range (e2, s2, c2) = (e2, s2, c2)" by (simp add: check_range_def)
    with None keep assms(1,2) False show ?thesis by auto
  next
    case (Some r)
    obtain lo hi where r: "r = (lo, hi)" by (cases r)
    with Some have rng: "map_of EMOTION_SCORE_RANGES e2 = Some (lo, hi)" by simp
    note rb = range_bounds [OF rng]
    have eq: "check_range (e2, s2, c2) = (e2, max lo (min hi s2), c2)"
      by (simp add: check_range_def rng Let_def)
    have "lo \<le> max lo (min hi s2)" "max lo (min hi s2) \<le> hi" using rb(1) by simp_all
    moreover from this rb have "- 1 \<le> max lo (min hi s2)" "max lo (min hi s2) \<le> 1" by linarith+
    ultimately show ?thesis using eq keep rng False by auto
  qed
qed

lemma check_evidence_outcome:
  assumes "- 1 \<le> s3" "s3 \<le> 1"
    and "e3 = e0 \<and> c3 = c0 \<and> 1 / 2 \<le> c0 \<or> detect_emotion_from_text t = Inr (e3, s3, c3)"
    and "\<forall>lo hi. map_of EMOTION_SCORE_RANGES e3 = Some (lo, hi) \<longrightarrow> lo \<le> s3 \<and> s3 \<le> hi"
  shows "\<exists>e s c. check_evidence t (e3, s3, c3) = Inr (e, s, c) \<and> - 1 \<le> s \<and> s \<le> 1
           \<and> (e = e0 \<and> c = c0 \<and> 1 / 2 \<le> c0 \<or> detect_emotion_from_text t = Inr (e, s, c))
           \<and> (\<forall>lo hi. map_of EMOTION_SCORE_RANGES e = Some (lo, hi) \<longrightarrow> lo \<le> s \<and> s \<le> hi)
           \<and> (evidence t e = 0 \<longrightarrow> (\<forall>e' \<in> positive_emotions \<union> negative_emotions. evidence t e' = 0))
           \<and> (detect_emotion_from_text t = Inr (e3, s3, c3) \<longrightarrow> (e, s, c) = (e3, s3, c3))"
proof (cases "evidence t e3 = 0 \<and> \<not> (\<forall>e' \<in> positive_emotions \<union> negative_emotions. evidence t e' = 0)")
  case True
  from detect_total obtain e s c where d: "detect_emotion_from_text t = Inr (e, s, c)" by blast
  from True have eq: "check_evidence t (e3, s3, c3) = Inr (e, s, c)"
    by (simp add: check_evidence_eq d)
  have same: "detect_emotion_from_text t = Inr (e3, s3, c3) \<longrightarrow> (e, s, c) = (e3, s3, c3)"
    using d by simp
  from detect_settled(5) [OF d]
  have "evidence t e = 0 \<longrightarrow> (\<forall>e' \<in> positive_emotions \<union> negative_emotions. evidence t e' = 0)"
    by blast
  with eq d detect_unit_interval [OF d] detect_in_range [OF d] same show ?thesis
    by - (rule exI [of _ e], rule exI [of _ s], rule exI [of _ c], blast)
next
  case False
  then have "check_evidence t (e3, s3, c3) = Inr (e3, s3, c3)"
    by (auto simp: check_evidence_eq)
  with False assms show ?thesis
    by - (rule exI [of _ e3], rule exI [of _ s3], rule exI [of _ c3], blast)
qed

text \<open>The run of the validator: the triple after CHECK 5 and what holds of it.\<close>

lemma validate_and_fix_outcome:
  "\<exists>e s c. validate_and_fix m t =
              Inr \<lparr>mood_score = py_round s 4, dominant_emotion = e,
                   confidence = py_round c 4,
                   result_keywords = extract_quality_keywords t e\<rparr>
     \<and> - 1 \<le> s \<and> s \<le> 1
     \<and> (e = given_emotion m \<and> c = given_confidence m \<and> 1 / 2 \<le> given_confidence m
         \<or> detect_emotion_from_text t = Inr (e, s, c))
     \<and> (\<forall>lo hi. map_of EMOTION_SCORE_RANGES e = Some (lo, hi) \<longrightarrow> lo \<le> s \<and> s \<le> hi)
     \<and> (evidence t e = 0 \<longrightarrow> (\<forall>e' \<in> positive_emotions \<union> negative_emotions. evidence t e' = 0))
     \<and> (given_confidence m < 1 / 2 \<longrightarrow> detect_emotion_from_text t = Inr (e, s, c))"
proof -
  let ?e0 = "given_emotion m" and ?c0 = "given_confidence m"
  let ?s0 = "max (- 1) (min 1 (given_score m))"
  have s0: "- 1 \<le> ?s0" "?s0 \<le> 1" by simp_all
  from check_confidence_outcome [OF s0, of t ?e0 ?c0] obtain e1 s1 c1 where
    k1: "check_confidence t (?e0, ?s0, ?c0) = Inr (e1, s1, c1)"
    and b1: "- 1 \<le> s1" "s1 \<le> 1"
    and p1: "e1 = ?e0 \<and> c1 = ?c0 \<and> 1 / 2 \<le> ?c0 \<or> detect_emotion_from_text t = Inr (e1, s1, c1)"
    and d1: "?c0 < 1 / 2 \<longrightarrow> detect_emotion_from_text t = Inr (e1, s1, c1)"
    by blast
  from check_sign_outcome [OF b1 p1] obtain e2 s2 c2 where
    k2: "check_sign t (e1, s1, c1) = Inr (e2, s2, c2)"
    and b2: "- 1 \<le> s2" "s2 \<le> 1"
    and p2: "e2 = ?e0 \<and> c2 = ?c0 \<and> 1 / 2 \<le> ?c0 \<or> detect_emotion_from_text t = Inr (e2, s2, c2)"
    and d2: "detect_emotion_from_text t = Inr (e1, s1, c1) \<longrightarrow> (e2, s2, c2) = (e1, s1, c1)"
    by blast
  from check_range_outcome [OF b2 p2] obtain s3 where
    k3: "check_range (e2, s2, c2) = (e2, s3, c2)"
    and b3: "- 1 \<le> s3" "s3 \<le> 1"
    and p3: "e2 = ?e0 \<and> c2 = ?c0 \<and> 1 / 2 \<le> ?c0 \<or> detect_emotion_from_text t = Inr (e2, s3, c2)"
    and r3: "\<forall>lo hi. map_of EMOTION_SCORE_RANGES e2 = Some (lo, hi) \<longrightarrow> lo \<le> s3 \<and> s3 \<le> hi"
    and d3: "detect_emotion_from_text t = Inr (e2, s2, c2) \<longrightarrow> s3 = s2"
    by blast
  from check_evidence_outcome [OF b3 p3 r3] obtain e s c where
    k4: "check_evidence t (e2, s3, c2) = Inr (e, s, c)"
    and b4: "- 1 \<le> s" "s \<le> 1"
    and p4: "e = ?e0 \<and> c = ?c0 \<and> 1 / 2 \<le> ?c0 \<or> detect_emotion_from_text t = Inr (e, s, c)"
    and r4: "\<forall>lo hi. map_of EMOTION_SCORE_RANGES e = Some (lo, hi) \<longrightarrow> lo \<le> s \<and> s \<le> hi"
    and v4: "evidence t e = 0 \<longrightarrow> (\<forall>e' \<in> positive_emotions \<union> negative_emotions. evidence t e' = 0)"
    and d4: "detect_emotion_from_text t = Inr (e2, s3, c2) \<longrightarrow> (e, s, c) = (e2, s3, c2)"
    by (elim exE conjE) (rule that; assumption)
  have run: "validate_and_fix m t =
               Inr \<lparr>mood_score = py_round s 4, dominant_emotion = e,
                    confidence = py_round c 4,
                    result_keywords = extract_quality_keywords t e\<rparr>"
    by (simp add: validate_and_fix_def Let_def k1 k2 k3 k4)
  have low: "?c0 < 1 / 2 \<longrightarrow> detect_emotion_from_text t = Inr (e, s, c)"
  proof
    assume "?c0 < 1 / 2"
    with d1 have a: "detect_emotion_from_text t = Inr (e1, s1, c1)" by blast
    with d2 have "(e2, s2, c2) = (e1, s1, c1)" by blast
    with a have b: "detect_emotion_from_text t = Inr (e2, s2, c2)" by simp
    with d3 have "s3 = s2" by blast
    with b have c: "detect_emotion_from_text t = Inr (e2, s3, c2)" by simp
    with d4 have "(e, s, c) = (e2, s3, c2)" by blast
    with c show "detect_emotion_from_text t = Inr (e, s, c)" by simp
  qed
  from run b4 p4 r4 v4 low show ?thesis
    by - (rule exI [of _ e], rule exI [of _ s], rule exI [of _ c], blast)
qed

lemma py_round_half: "1 / 2 \<le> c \<Longrightarrow> 1 / 2 \<le> py_round c 4"
  by (rule py_round_lower [of _ _ 5000]) simp_all

lemma py_round_unit: "- 1 \<le> s \<Longrightarrow> s \<le> 1 \<Longrightarrow> - 1 \<le> py_round s 4 \<and> py_round s 4 \<le> 1"
  using py_round_lower [of "- 1" 4 "- 10000" s] py_round_upper [of 1 4 10000 s] by simp

subsection \<open>Emotion labels\<close>

lemma to_lower_idem: "to_lower (to_lower c) = to_lower c"
  by (simp add: to_lower_def ascii_uppercase_def ascii_lowercase_def)

lemma lower_idem: "lower (lower s) = lower s"
  by (simp add: lower_def to_lower_idem)

lemma lower_valid: "e \<in> valid_emotions \<Longrightarrow> lower e = e \<and> e \<noteq> []"
  unfolding valid_emotions_def
  by (elim insertE emptyE; simp add: lower_def to_lower_def ascii_uppercase_def ascii_lowercase_def)

lemma given_emotion_lower: "lower (given_emotion m) = given_emotion m \<and> given_emotion m \<noteq> []"
proof
  show "lower (given_emotion m) = given_emotion m" by (simp add: given_emotion_def lower_idem)
  have "lower s = [] \<longleftrightarrow> s = []" for s by (simp add: lower_def)
  then show "given_emotion m \<noteq> []" by (simp add: given_emotion_def split: option.splits)
qed

lemma given_emotion_to_dict:
  "lower (dominant_emotion r) = dominant_emotion r \<Longrightarrow> dominant_emotion r \<noteq> []
     \<Longrightarrow> given_emotion (to_dict r) = dominant_emotion r"
  by (simp add: given_emotion_def to_dict_def)

lemma given_to_dict:
  "given_score (to_dict r) = mood_score r" "given_confidence (to_dict r) = confidence r"
  by (simp_all add: given_score_def given_confidence_def to_dict_def)

lemma polarity_of_range:
  assumes "map_of EMOTION_SCORE_RANGES e = Some (lo, hi)" and "lo \<le> s" and "s \<le> hi"
  shows "(e \<in> positive_emotions \<longrightarrow> 0 \<le> s) \<and> (e \<in> negative_emotions \<longrightarrow> s \<le> 0)
           \<and> (e = ''neutral'' \<longrightarrow> \<bar>s\<bar> \<le> 15 / 100)"
  using assms by (auto simp: positive_emotions_def negative_emotions_def ranges_lookup)

section \<open>Emotion, score and confidence of the validated result\<close>

text \<open>
  C1. For every candidate whose emotion is one of the six values and every text, the
  validator returns a result, the emotion of the result has a range in the table, the
  score lies in that range, and its sign fits the polarity of the emotion: not negative
  for happy and calm, not positive for sad, anxious and angry, at most 0.15 in absolute
  value for neutral.
\<close>

theorem validate_and_fix_sign_and_range:
  assumes "get_dominant_emotion m = Some e" and "e \<in> valid_emotions"
  shows "\<exists>r lo hi. validate_and_fix m t = Inr r
           \<and> map_of EMOTION_SCORE_RANGES (dominant_emotion r) = Some (lo, hi)
           \<and> lo \<le> mood_score r \<and> mood_score r \<le> hi
           \<and> (dominant_emotion r \<in> positive_emotions \<longrightarrow> 0 \<le> mood_score r)
           \<and> (dominant_emotion r \<in> negative_emotions \<longrightarrow> mood_score r \<le> 0)
           \<and> (dominant_emotion r = ''neutral'' \<longrightarrow> \<bar>mood_score r\<bar> \<le> 15 / 100)"
proof -
  from assms lower_valid [OF assms(2)] have given: "given_emotion m = e"
    by (simp add: given_emotion_def)
  from validate_and_fix_outcome [of m t] obtain e' s c where
    run: "validate_and_fix m t =
            Inr \<lparr>mood_score = py_round s 4, dominant_emotion = e', confidence = py_round c 4,
                 result_keywords = extract_quality_keywords t e'\<rparr>"
    and src: "e' = given_emotion m \<and> c = given_confidence m \<and> 1 / 2 \<le> given_confidence m
                \<or> detect_emotion_from_text t = Inr (e', s, c)"
    and rng: "\<forall>lo hi. map_of EMOTION_SCORE_RANGES e' = Some (lo, hi) \<longrightarrow> lo \<le> s \<and> s \<le> hi"
    by (elim exE conjE) (rule that; assumption)
  from src given assms(2) detect_settled(1) have "e' \<in> valid_emotions" by blast
  from valid_ranges [OF this] obtain lo hi where
    tab: "map_of EMOTION_SCORE_RANGES e' = Some (lo, hi)" by blast
  with rng have "lo \<le> s" "s \<le> hi" by simp_all
  with tab have inr: "lo \<le> py_round s 4 \<and> py_round s 4 \<le> hi"
    by (intro py_round_in_range) simp_all
  with polarity_of_range [OF tab, of "py_round s 4"] run tab show ?thesis by simp
qed

theorem validate_and_fix_sign_and_range_witness:
  "validate_and_fix \<lparr>get_mood_score = Some (- (1 / 2)), get_dominant_emotion = Some ''happy'',
                     get_confidence = Some (9 / 10), get_keywords = Some []\<rparr> ''a happy day''
     = Inr \<lparr>mood_score = 1 / 2, dominant_emotion = ''happy'', confidence = 9 / 10,
            result_keywords = [''happy'']\<rparr>
   \<and> (\<exists>r lo hi. validate_and_fix \<lparr>get_mood_score = Some (- (1 / 2)),
                     get_dominant_emotion = Some ''happy'',
                     get_confidence = Some (9 / 10), get_keywords = Some []\<rparr> ''a happy day'' = Inr r
           \<and> map_of EMOTION_SCORE_RANGES (dominant_emotion r) = Some (lo, hi)
           \<and> lo \<le> mood_score r \<and> mood_score r \<le> hi
           \<and> (dominant_emotion r \<in> positive_emotions \<longrightarrow> 0 \<le> mood_score r)
           \<and> (dominant_emotion r \<in> negative_emotions \<longrightarrow> mood_score r \<le> 0)
           \<and> (dominant_emotion r = ''neutral'' \<longrightarrow> \<bar>mood_score r\<bar> \<le> 15 / 100))"
proof
  show "validate_and_fix \<lparr>get_mood_score = Some (- (1 / 2)), get_dominant_emotion = Some ''happy'',
                     get_confidence = Some (9 / 10), get_keywords = Some []\<rparr> ''a happy day''
     = Inr \<lparr>mood_score = 1 / 2, dominant_emotion = ''happy'', confidence = 9 / 10,
            result_keywords = [''happy'']\<rparr>"
    by code_simp
  show "\<exists>r lo hi. validate_and_fix \<lparr>get_mood_score = Some (- (1 / 2)),
                     get_dominant_emotion = Some ''happy'',
                     get_confidence = Some (9 / 10), get_keywords = Some []\<rparr> ''a happy day'' = Inr r
           \<and> map_of EMOTION_SCORE_RANGES (dominant_emotion r) = Some (lo, hi)
           \<and> lo \<le> mood_score r \<and> mood_score r \<le> hi
           \<and> (dominant_emotion r \<in> positive_emotions \<longrightarrow> 0 \<le> mood_score r)
           \<and> (dominant_emotion r \<in> negative_emotions \<longrightarrow> mood_score r \<le> 0)
           \<and> (dominant_emotion r = ''neutral'' \<longrightarrow> \<bar>mood_score r\<bar> \<le> 15 / 100)"
    by (rule validate_and_fix_sign_and_range [of _ "''happy''"])
       (simp_all add: valid_emotions_def)
qed

text \<open>
  C2. The validator is idempotent: for every candidate and every text it returns a
  result, and validating that result again against the same text returns it unchanged,
  in all four fields.
\<close>

theorem validate_and_fix_idempotent:
  "\<exists>r. validate_and_fix x t = Inr r \<and> validate_and_fix (to_dict r) t = Inr r"
proof -
  from validate_and_fix_outcome [of x t] obtain e s c where
    run: "validate_and_fix x t =
            Inr \<lparr>mood_score = py_round s 4, dominant_emotion = e, confidence = py_round c 4,
                 result_keywords = extract_quality_keywords t e\<rparr>"
    and unit: "- 1 \<le> s" "s \<le> 1"
    and src: "e = given_emotion x \<and> c = given_confidence x \<and> 1 / 2 \<le> given_confidence x
                \<or> detect_emotion_from_text t = Inr (e, s, c)"
    and rng: "\<forall>lo hi. map_of EMOTION_SCORE_RANGES e = Some (lo, hi) \<longrightarrow> lo \<le> s \<and> s \<le> hi"
    and evd: "evidence t e = 0 \<longrightarrow> (\<forall>e' \<in> positive_emotions \<union> negative_emotions. evidence t e' = 0)"
    by (elim exE conjE) (rule that; assumption)
  let ?r = "\<lparr>mood_score = py_round s 4, dominant_emotion = e, confidence = py_round c 4,
              result_keywords = extract_quality_keywords t e\<rparr>"
  let ?s = "py_round s 4" and ?c = "py_round c 4"
  from src have label: "lower e = e \<and> e \<noteq> []"
  proof
    assume "e = given_emotion x \<and> c = given_confidence x \<and> 1 / 2 \<le> given_confidence x"
    with given_emotion_lower [of x] show ?thesis by simp
  next
    assume "detect_emotion_from_text t = Inr (e, s, c)"
    from detect_settled(1) [OF this] show ?thesis by (rule lower_valid)
  qed
  from src have "1 / 2 \<le> c"
  proof
    assume "e = given_emotion x \<and> c = given_confidence x \<and> 1 / 2 \<le> given_confidence x"
    then show ?thesis by simp
  next
    assume "detect_emotion_from_text t = Inr (e, s, c)"
    then show ?thesis by (rule detect_settled(2))
  qed
  then have conf: "1 / 2 \<le> ?c" by (rule py_round_half)
  from py_round_unit [OF unit] have clamp: "max (- 1) (min 1 ?s) = ?s" by simp
  have range: "lo \<le> ?s \<and> ?s \<le> hi" if "map_of EMOTION_SCORE_RANGES e = Some (lo, hi)" for lo hi
    using that rng by (intro py_round_in_range [OF that]) simp_all
  have g: "given_emotion (to_dict ?r) = e" "given_score (to_dict ?r) = ?s"
    "given_confidence (to_dict ?r) = ?c"
    using label by (simp_all add: given_emotion_to_dict given_to_dict)
  have k1: "check_confidence t (e, ?s, ?c) = Inr (e, ?s, ?c)"
    using conf by (rule check_confidence_keep)
  have k2: "check_sign t (e, ?s, ?c) = Inr (e, ?s, ?c)"
    using range by (rule check_sign_keep)
  have k3: "check_range (e, ?s, ?c) = (e, ?s, ?c)"
    using range by (rule check_range_keep)
  have k4: "check_evidence t (e, ?s, ?c) = Inr (e, ?s, ?c)"
    using evd by (intro check_evidence_keep) simp
  have "validate_and_fix (to_dict ?r) t = Inr ?r"
    by (simp add: validate_and_fix_def Let_def g clamp k1 k2 k3 k4 py_round_idem)
  with run show ?thesis by simp
qed

theorem validate_and_fix_idempotent_witness:
  "validate_and_fix \<lparr>get_mood_score = Some (- (8 / 10)), get_dominant_emotion = Some ''calm'',
                     get_confidence = Some (9 / 10), get_keywords = Some []\<rparr>
     ''I am furious and enraged''
     = Inr \<lparr>mood_score = - (78 / 100), dominant_emotion = ''angry'', confidence = 63 / 100,
            result_keywords = [''furious'', ''enraged'']\<rparr>
   \<and> validate_and_fix (to_dict \<lparr>mood_score = - (78 / 100), dominant_emotion = ''angry'',
                                confidence = 63 / 100,
                                result_keywords = [''furious'', ''enraged'']\<rparr>)
     ''I am furious and enraged''
     = Inr \<lparr>mood_score = - (78 / 100), dominant_emotion = ''angry'', confidence = 63 / 100,
            result_keywords = [''furious'', ''enraged'']\<rparr>"
proof -
  have first: "validate_and_fix \<lparr>get_mood_score = Some (- (8 / 10)),
                     get_dominant_emotion = Some ''calm'',
                     get_confidence = Some (9 / 10), get_keywords = Some []\<rparr>
     ''I am furious and enraged''
     = Inr \<lparr>mood_score = - (78 / 100), dominant_emotion = ''angry'', confidence = 63 / 100,
            result_keywords = [''furious'', ''enraged'']\<rparr>"
    by code_simp
  from validate_and_fix_idempotent
    [of "\<lparr>get_mood_score = Some (- (8 / 10)), get_dominant_emotion = Some ''calm'',
          get_confidence = Some (9 / 10), get_keywords = Some []\<rparr>" "''I am furious and enraged''"]
  show ?thesis unfolding first by simp
qed

text \<open>
  C3, as the code has it. For every candidate and every text the validator returns a
  result whose emotion either has keyword evidence in the text, or else no non-neutral
  emotion has any evidence in the text; then the emotion is neutral or is the
  candidate's own label (lower-cased, neutral when missing), kept without evidence.
\<close>

theorem validate_and_fix_evidence:
  "\<exists>r. validate_and_fix m t = Inr r
     \<and> (0 < evidence t (dominant_emotion r)
        \<or> (\<forall>e \<in> positive_emotions \<union> negative_emotions. evidence t e = 0)
          \<and> (dominant_emotion r = ''neutral'' \<or> dominant_emotion r = given_emotion m))"
proof -
  from validate_and_fix_outcome [of m t] obtain e s c where
    run: "validate_and_fix m t =
            Inr \<lparr>mood_score = py_round s 4, dominant_emotion = e, confidence = py_round c 4,
                 result_keywords = extract_quality_keywords t e\<rparr>"
    and src: "e = given_emotion m \<and> c = given_confidence m \<and> 1 / 2 \<le> given_confidence m
                \<or> detect_emotion_from_text t = Inr (e, s, c)"
    and evd: "evidence t e = 0 \<longrightarrow> (\<forall>e' \<in> positive_emotions \<union> negative_emotions. evidence t e' = 0)"
    by (elim exE conjE) (rule that; assumption)
  have "0 < evidence t e
        \<or> (\<forall>e' \<in> positive_emotions \<union> negative_emotions. evidence t e' = 0)
          \<and> (e = ''neutral'' \<or> e = given_emotion m)"
  proof (cases "evidence t e = 0")
    case False
    then show ?thesis by simp
  next
    case True
    with evd have none: "\<forall>e' \<in> positive_emotions \<union> negative_emotions. evidence t e' = 0" by blast
    from src have "e = ''neutral'' \<or> e = given_emotion m"
    proof
      assume "e = given_emotion m \<and> c = given_confidence m \<and> 1 / 2 \<le> given_confidence m"
      then show ?thesis by simp
    next
      assume "detect_emotion_from_text t = Inr (e, s, c)"
      with detect_neutral [OF none] show ?thesis by simp
    qed
    with none show ?thesis by blast
  qed
  with run show ?thesis by simp
qed

theorem validate_and_fix_evidence_witness:
  "validate_and_fix \<lparr>get_mood_score = Some (- (8 / 10)), get_dominant_emotion = Some ''calm'',
                     get_confidence = Some (9 / 10), get_keywords = Some []\<rparr>
     ''I am furious and enraged''
     = Inr \<lparr>mood_score = - (78 / 100), dominant_emotion = ''angry'', confidence = 63 / 100,
            result_keywords = [''furious'', ''enraged'']\<rparr>
   \<and> 0 < evidence ''I am furious and enraged'' ''angry''"
proof -
  have first: "validate_and_fix \<lparr>get_mood_score = Some (- (8 / 10)),
                     get_dominant_emotion = Some ''calm'',
                     get_confidence = Some (9 / 10), get_keywords = Some []\<rparr>
     ''I am furious and enraged''
     = Inr \<lparr>mood_score = - (78 / 100), dominant_emotion = ''angry'', confidence = 63 / 100,
            result_keywords = [''furious'', ''enraged'']\<rparr>"
    by code_simp
  have calm: "given_emotion \<lparr>get_mood_score = Some (- (8 / 10)), get_dominant_emotion = Some ''calm'',
                     get_confidence = Some (9 / 10), get_keywords = Some []\<rparr> = ''calm''"
    by code_simp
  from validate_and_fix_evidence
    [of "\<lparr>get_mood_score = Some (- (8 / 10)), get_dominant_emotion = Some ''calm'',
          get_confidence = Some (9 / 10), get_keywords = Some []\<rparr>" "''I am furious and enraged''"]
  show ?thesis unfolding first calm by simp
qed

text \<open>
  C3 as stated fails: the candidate (happy, 0.5, 0.9) on the text "hello world" keeps
  the emotion happy, which has no evidence in the text and is not what the detector
  returns for it (neutral).
\<close>

theorem validate_and_fix_evidence_counterexample:
  "validate_and_fix \<lparr>get_mood_score = Some (5 / 10), get_dominant_emotion = Some ''happy'',
                     get_confidence = Some (9 / 10), get_keywords = Some []\<rparr> ''hello world''
     = Inr \<lparr>mood_score = 5 / 10, dominant_emotion = ''happy'', confidence = 9 / 10,
            result_keywords = [''hello'', ''world'']\<rparr>
   \<and> evidence ''hello world'' ''happy'' = 0
   \<and> detect_emotion_from_text ''hello world'' = Inr (''neutral'', 0, 1 / 2)"
  by code_simp



subsection \<open>When the validator detects again\<close>










section \<open>Keywords of the validated result\<close>

subsection \<open>The keyword loop\<close>

text \<open>One turn of the loop, \<open>seen\<close> being the set of the keywords collected so far.\<close>

lemma collect_keywords_step:
  "collect_keywords (kw # rest) (set final) final =
     (if 5 \<le> length (if kw \<in> set final then final else final @ [kw])
      then (if kw \<in> set final then final else final @ [kw])
      else collect_keywords rest (set (if kw \<in> set final then final else final @ [kw]))
             (if kw \<in> set final then final else final @ [kw]))"
  by simp


subsection \<open>The first distinct entries of a list\<close>

text \<open>
  \<open>remdups\<close> keeps the last occurrence of every entry, so \<open>rev (remdups (rev xs))\<close> keeps
  the first: it is \<open>xs\<close> without the repetitions, in the order of \<open>xs\<close>.
\<close>

lemma remdups_append_filter:
  "remdups (xs @ ys) = filter (\<lambda>x. x \<notin> set ys) (remdups xs) @ remdups ys"
  by (induction xs) auto

lemma first_distinct_Cons:
  "rev (remdups (rev (x # xs))) = x # rev (remdups (rev (filter (\<lambda>y. y \<noteq> x) xs)))"
proof -
  have "remdups (rev xs @ [x]) = filter (\<lambda>y. y \<noteq> x) (remdups (rev xs)) @ [x]"
    by (simp add: remdups_append_filter)
  also have "filter (\<lambda>y. y \<noteq> x) (remdups (rev xs)) = remdups (rev (filter (\<lambda>y. y \<noteq> x) xs))"
    by (simp add: remdups_filter rev_filter)
  finally show ?thesis by simp
qed

lemma first_distinct_append:
  assumes "distinct xs" and "set xs \<inter> set ys = {}"
  shows "rev (remdups (rev (xs @ ys))) = xs @ rev (remdups (rev ys))"
proof -
  have "filter (\<lambda>x. x \<notin> set (rev xs)) (remdups (rev ys)) = remdups (rev ys)"
    using assms(2) by (auto simp: filter_id_conv)
  then have "remdups (rev ys @ rev xs) = remdups (rev ys) @ rev xs"
    using assms(1) by (simp add: remdups_append_filter distinct_remdups_id)
  then show ?thesis by simp
qed

text \<open>The loop collects the first five distinct entries.\<close>

lemma collect_keywords_first_distinct:
  "distinct final \<Longrightarrow> length final < 5 \<Longrightarrow>
     collect_keywords xs (set final) final =
       take 5 (final @ rev (remdups (rev (filter (\<lambda>x. x \<notin> set final) xs))))"
proof (induction xs arbitrary: final)
  case Nil
  then show ?case by simp
next
  case (Cons kw rest)
  let ?f = "if kw \<in> set final then final else final @ [kw]"
  let ?first = "\<lambda>xs. rev (remdups (rev xs))"
  show ?case
  proof (cases "kw \<in> set final")
    case True
    then have f: "?f = final" by simp
    from Cons.prems(2) have "\<not> 5 \<le> length final" by simp
    then have "collect_keywords (kw # rest) (set final) final
                 = collect_keywords rest (set final) final"
      by (simp only: collect_keywords_step f if_False)
    also have "\<dots> = take 5 (final @ ?first (filter (\<lambda>x. x \<notin> set final) rest))"
      using Cons.prems by (rule Cons.IH)
    also have "filter (\<lambda>x. x \<notin> set final) rest = filter (\<lambda>x. x \<notin> set final) (kw # rest)"
      using True by simp
    finally show ?thesis .
  next
    case False
    then have f: "?f = final @ [kw]" by simp
    have d: "distinct (final @ [kw])" using Cons.prems(1) False by simp
    have rest: "filter (\<lambda>y. y \<noteq> kw) (filter (\<lambda>x. x \<notin> set final) rest)
                  = filter (\<lambda>x. x \<notin> set (final @ [kw])) rest"
      by (auto intro: filter_cong)
    have unfold: "?first (filter (\<lambda>x. x \<notin> set final) (kw # rest))
                    = kw # ?first (filter (\<lambda>x. x \<notin> set (final @ [kw])) rest)"
    proof -
      have "filter (\<lambda>x. x \<notin> set final) (kw # rest) = kw # filter (\<lambda>x. x \<notin> set final) rest"
        using False by simp
      then show ?thesis by (simp only: first_distinct_Cons rest)
    qed
    show ?thesis
    proof (cases "5 \<le> length (final @ [kw])")
      case stop: True
      then have "collect_keywords (kw # rest) (set final) final = final @ [kw]"
        by (simp only: collect_keywords_step f if_True)
      moreover from stop Cons.prems(2) have "length final = 4" by simp
      ultimately show ?thesis by (simp only: unfold) simp
    next
      case go: False
      then have "collect_keywords (kw # rest) (set final) final
                   = collect_keywords rest (set (final @ [kw])) (final @ [kw])"
        by (simp only: collect_keywords_step f if_False)
      also from go have "length (final @ [kw]) < 5" by simp
      with d have "collect_keywords rest (set (final @ [kw])) (final @ [kw])
                     = take 5 ((final @ [kw])
                         @ ?first (filter (\<lambda>x. x \<notin> set (final @ [kw])) rest))"
        by (rule Cons.IH)
      finally show ?thesis by (simp only: unfold) simp
    qed
  qed
qed

lemma collect_keywords_all: "collect_keywords xs {} [] = take 5 (rev (remdups (rev xs)))"
  using collect_keywords_first_distinct [of "[]" xs] by simp

subsection \<open>Extracted keywords\<close>

lemma keywords_of_unknown: "e \<notin> valid_emotions \<Longrightarrow> keywords_of e = []"
proof -
  assume e: "e \<notin> valid_emotions"
  from EMOTION_KEYWORDS_shape obtain h s a c g n where eq:
    "EMOTION_KEYWORDS =
       [(''happy'', h), (''sad'', s), (''anxious'', a), (''calm'', c), (''angry'', g), (''neutral'', n)]"
    by blast
  show ?thesis unfolding keywords_of_def eq using e by (simp add: valid_emotions_def)
qed

lemma valid_emotions_cases:
  assumes "e \<in> valid_emotions"
  obtains "e = ''happy''" | "e = ''sad''" | "e = ''anxious''" | "e = ''calm''"
    | "e = ''angry''" | "e = ''neutral''"
  using assms unfolding valid_emotions_def by (elim insertE emptyE)

text \<open>No keyword list of the lexicon repeats a word.\<close>

lemma lexicon_distinct:
  "distinct (keywords_of ''happy'')" "distinct (keywords_of ''sad'')"
  "distinct (keywords_of ''anxious'')" "distinct (keywords_of ''calm'')"
  "distinct (keywords_of ''angry'')" "distinct (keywords_of ''neutral'')"
  by code_simp+

lemma keywords_of_distinct: "distinct (keywords_of e)"
proof (cases "e \<in> valid_emotions")
  case True
  then show ?thesis by (cases rule: valid_emotions_cases) (simp_all only: lexicon_distinct)
next
  case False
  then show ?thesis by (simp add: keywords_of_unknown)
qed

lemma emotion_kwds_distinct: "distinct (emotion_kwds t e)"
  by (simp add: emotion_kwds_def keywords_of_distinct)

lemma content_words_disjoint: "set (emotion_kwds t e) \<inter> set (content_words t e) = {}"
  by (auto simp: content_words_def)

lemma sentinel_not_stop_words: "''journal'' \<notin> set stop_words" "''entry'' \<notin> set stop_words"
  by code_simp+

text \<open>What \<^verbatim>\<open>_extract_quality_keywords\<close> returns, in closed form.\<close>

lemma extract_quality_keywords_eq:
  "extract_quality_keywords t e =
     (if emotion_kwds t e @ content_words t e = [] then [''journal'', ''entry'']
      else take 5 (rev (remdups (rev (emotion_kwds t e @ content_words t e)))))"
proof -
  let ?xs = "emotion_kwds t e @ content_words t e"
  have "take 5 (rev (remdups (rev ?xs))) = [] \<longleftrightarrow> ?xs = []"
    by (cases ?xs) (simp_all only: first_distinct_Cons, simp_all)
  then show ?thesis
    unfolding extract_quality_keywords_def Let_def collect_keywords_all by auto
qed

lemma extract_quality_keywords_properties:
  "distinct (extract_quality_keywords t e)"
  "1 \<le> length (extract_quality_keywords t e)"
  "length (extract_quality_keywords t e) \<le> 5"
  "k \<in> set (extract_quality_keywords t e) \<Longrightarrow> k \<in> set stop_words \<Longrightarrow> k \<in> set (emotion_kwds t e)"
proof -
  let ?xs = "emotion_kwds t e @ content_words t e"
  let ?c = "take 5 (rev (remdups (rev ?xs)))"
  note eq = extract_quality_keywords_eq [of t e]
  have d: "distinct ?c" by (simp add: distinct_take)
  have "set ?c \<subseteq> set (rev (remdups (rev ?xs)))" by (rule set_take_subset)
  also have "\<dots> = set ?xs" by (simp only: set_rev set_remdups)
  finally have sub: "set ?c \<subseteq> set ?xs" .
  show "distinct (extract_quality_keywords t e)" using d by (simp add: eq)
  show "length (extract_quality_keywords t e) \<le> 5" by (simp add: eq)
  show "1 \<le> length (extract_quality_keywords t e)"
  proof (cases "?xs = []")
    case True
    then show ?thesis by (simp add: eq)
  next
    case False
    then obtain x rest where "?xs = x # rest" by (cases ?xs) auto
    then have "?c \<noteq> []" by (simp only: first_distinct_Cons) simp
    with False show ?thesis by (cases ?c) (simp_all add: eq)
  qed
  show "k \<in> set (emotion_kwds t e)"
    if k: "k \<in> set (extract_quality_keywords t e)" and stop: "k \<in> set stop_words"
  proof -
    from k stop sentinel_not_stop_words have "k \<in> set ?c"
      by (auto simp: eq split: if_splits)
    with sub have "k \<in> set (emotion_kwds t e) \<or> k \<in> set (content_words t e)" by auto
    moreover have "k \<notin> set (content_words t e)" using stop by (simp add: content_words_def)
    ultimately show ?thesis by simp
  qed
qed

text \<open>
  C7, as the code has it. For every candidate and every text, the keyword list of the
  validator's result is the first five distinct entries of the list made of the
  keywords of the result's emotion that are tokens of the text, in lexicon order,
  followed by the content words of the text (alphabetic tokens longer than four
  characters that are neither stop words nor among those keywords), in text order; it
  is the sentinel pair when that list is empty. The emotion's keywords have no
  repetitions and are no content words, so they all come first. The list therefore has
  no duplicates and between one and five entries, and a stop word occurs in it only as
  a keyword of the result's emotion found in the text: the stop-word filter applies to
  content words only.
\<close>

theorem validate_and_fix_keywords:
  "\<exists>r. validate_and_fix m t = Inr r
     \<and> result_keywords r =
         (if emotion_kwds t (dominant_emotion r) @ content_words t (dominant_emotion r) = []
          then [''journal'', ''entry'']
          else take 5 (rev (remdups (rev (emotion_kwds t (dominant_emotion r)
                                            @ content_words t (dominant_emotion r))))))
     \<and> rev (remdups (rev (emotion_kwds t (dominant_emotion r)
                            @ content_words t (dominant_emotion r))))
         = emotion_kwds t (dominant_emotion r)
             @ rev (remdups (rev (content_words t (dominant_emotion r))))
     \<and> distinct (result_keywords r)
     \<and> 1 \<le> length (result_keywords r) \<and> length (result_keywords r) \<le> 5
     \<and> (\<forall>k \<in> set (result_keywords r).
           k \<in> set stop_words \<longrightarrow> k \<in> set (emotion_kwds t (dominant_emotion r)))"
proof -
  from validate_and_fix_outcome [of m t] obtain e s c where
    run: "validate_and_fix m t =
            Inr \<lparr>mood_score = py_round s 4, dominant_emotion = e, confidence = py_round c 4,
                 result_keywords = extract_quality_keywords t e\<rparr>"
    by (elim exE conjE) (rule that; assumption)
  let ?r = "\<lparr>mood_score = py_round s 4, dominant_emotion = e, confidence = py_round c 4,
              result_keywords = extract_quality_keywords t e\<rparr>"
  have kw: "result_keywords ?r = extract_quality_keywords t e" and em: "dominant_emotion ?r = e"
    by simp_all
  have pin: "result_keywords ?r =
         (if emotion_kwds t (dominant_emotion ?r) @ content_words t (dominant_emotion ?r) = []
          then [''journal'', ''entry'']
          else take 5 (rev (remdups (rev (emotion_kwds t (dominant_emotion ?r)
                                            @ content_words t (dominant_emotion ?r))))))"
    unfolding kw em by (rule extract_quality_keywords_eq)
  have order: "rev (remdups (rev (emotion_kwds t (dominant_emotion ?r)
                            @ content_words t (dominant_emotion ?r))))
         = emotion_kwds t (dominant_emotion ?r)
             @ rev (remdups (rev (content_words t (dominant_emotion ?r))))"
    unfolding em by (rule first_distinct_append [OF emotion_kwds_distinct content_words_disjoint])
  have stop: "\<forall>k \<in> set (result_keywords ?r).
           k \<in> set stop_words \<longrightarrow> k \<in> set (emotion_kwds t (dominant_emotion ?r))"
    unfolding kw em by (intro ballI impI extract_quality_keywords_properties(4))
  have "distinct (result_keywords ?r)"
    and "1 \<le> length (result_keywords ?r)" and "length (result_keywords ?r) \<le> 5"
    unfolding kw by (rule extract_quality_keywords_properties)+
  with run pin order stop show ?thesis
    by - (rule exI [of _ ?r], intro conjI; assumption)
qed

theorem validate_and_fix_keywords_witness:
  "validate_and_fix \<lparr>get_mood_score = Some (4 / 10), get_dominant_emotion = Some ''calm'',
                     get_confidence = Some (9 / 10), get_keywords = Some [''today'']\<rparr>
     ''A calm, quiet morning today: a bright, bright morning''
     = Inr \<lparr>mood_score = 4 / 10, dominant_emotion = ''calm'', confidence = 9 / 10,
            result_keywords = [''calm'', ''quiet'', ''morning'', ''bright'']\<rparr>
   \<and> emotion_kwds ''A calm, quiet morning today: a bright, bright morning'' ''calm''
       = [''calm'', ''quiet'']
   \<and> content_words ''A calm, quiet morning today: a bright, bright morning'' ''calm''
       = [''morning'', ''bright'', ''bright'', ''morning'']
   \<and> rev (remdups (rev [''calm'', ''quiet'', ''morning'', ''bright'', ''bright'', ''morning'']))
       = [''calm'', ''quiet'', ''morning'', ''bright'']
   \<and> (\<exists>r. validate_and_fix \<lparr>get_mood_score = Some (4 / 10), get_dominant_emotion = Some ''calm'',
                     get_confidence = Some (9 / 10), get_keywords = Some [''today'']\<rparr>
           ''A calm, quiet morning today: a bright, bright morning'' = Inr r
         \<and> distinct (result_keywords r) \<and> length (result_keywords r) \<le> 5
         \<and> (\<forall>k \<in> set (result_keywords r).
               k \<in> set stop_words \<longrightarrow> k \<in> set (emotion_kwds
                 ''A calm, quiet morning today: a bright, bright morning'' (dominant_emotion r))))"
proof (intro conjI)
  show "validate_and_fix \<lparr>get_mood_score = Some (4 / 10), get_dominant_emotion = Some ''calm'',
                     get_confidence = Some (9 / 10), get_keywords = Some [''today'']\<rparr>
     ''A calm, quiet morning today: a bright, bright morning''
     = Inr \<lparr>mood_score = 4 / 10, dominant_emotion = ''calm'', confidence = 9 / 10,
            result_keywords = [''calm'', ''quiet'', ''morning'', ''bright'']\<rparr>"
    by code_simp
  show "emotion_kwds ''A calm, quiet morning today: a bright, bright morning'' ''calm''
       = [''calm'', ''quiet'']"
    by code_simp
  show "content_words ''A calm, quiet morning today: a bright, bright morning'' ''calm''
       = [''morning'', ''bright'', ''bright'', ''morning'']"
    by code_simp
  show "rev (remdups (rev [''calm'', ''quiet'', ''morning'', ''bright'', ''bright'', ''morning'']))
       = [''calm'', ''quiet'', ''morning'', ''bright'']"
    by code_simp
  from validate_and_fix_keywords
    [of "\<lparr>get_mood_score = Some (4 / 10), get_dominant_emotion = Some ''calm'',
          get_confidence = Some (9 / 10), get_keywords = Some [''today'']\<rparr>"
        "''A calm, quiet morning today: a bright, bright morning''"]
  show "\<exists>r. validate_and_fix \<lparr>get_mood_score = Some (4 / 10), get_dominant_emotion = Some ''calm'',
                     get_confidence = Some (9 / 10), get_keywords = Some [''today'']\<rparr>
           ''A calm, quiet morning today: a bright, bright morning'' = Inr r
         \<and> distinct (result_keywords r) \<and> length (result_keywords r) \<le> 5
         \<and> (\<forall>k \<in> set (result_keywords r).
               k \<in> set stop_words \<longrightarrow> k \<in> set (emotion_kwds
                 ''A calm, quiet morning today: a bright, bright morning'' (dominant_emotion r)))"
    by blast
qed

text \<open>
  C7 as stated fails: for the candidate (calm, 0.4, 0.9) and the text "still calm" the
  keyword list of the result contains "still", a word of the stop-word list.
\<close>

theorem validate_and_fix_keywords_counterexample:
  "validate_and_fix \<lparr>get_mood_score = Some (4 / 10), get_dominant_emotion = Some ''calm'',
                     get_confidence = Some (9 / 10), get_keywords = Some []\<rparr> ''still calm''
     = Inr \<lparr>mood_score = 4 / 10, dominant_emotion = ''calm'', confidence = 9 / 10,
            result_keywords = [''calm'', ''still'']\<rparr>
   \<and> ''still'' \<in> set stop_words"
  by code_simp

section \<open>The analyzer, its fallback and the pipeline\<close>

subsection \<open>Blank entries\<close>

lemma strip_chars_all: "\<forall>c \<in> set s. c \<in> set chars \<Longrightarrow> strip_chars chars s = []"
proof -
  assume "\<forall>c \<in> set s. c \<in> set chars"
  then have "dropWhile (\<lambda>c. c \<in> set chars) s = []" by (induction s) simp_all
  then show ?thesis by (simp only: strip_chars_def rev.simps dropWhile.simps)
qed

text \<open>
  C9. For the empty string and for every string of whitespace only, the analyzer
  returns the neutral sentinel (score 0, emotion neutral, confidence 0.5, the one
  keyword "entry") and sends no request to the model service, whatever the service
  would answer.
\<close>

theorem analyze_entry_blank:
  assumes "\<forall>c \<in> set text. is_space c"
  shows "analyze_entry post text =
           (Inr \<lparr>mood_score = 0, dominant_emotion = ''neutral'', confidence = 1 / 2,
                 result_keywords = [''entry'']\<rparr>, [])"
proof -
  from assms have "strip text = []"
    unfolding strip_def is_space_def by (rule strip_chars_all)
  then show ?thesis by (simp add: analyze_entry_def neutral_result_def)
qed

theorem analyze_entry_blank_witness:
  "is_space CHR '' '' \<and> is_space (CHR 0x09) \<and> is_space (CHR 0x0A)
   \<and> analyze_entry (\<lambda>request. Timeout) [CHR '' '', CHR 0x09, CHR 0x0A] =
       (Inr \<lparr>mood_score = 0, dominant_emotion = ''neutral'', confidence = 1 / 2,
             result_keywords = [''entry'']\<rparr>, [])
   \<and> analyze_entry (\<lambda>request. Timeout) [] =
       (Inr \<lparr>mood_score = 0, dominant_emotion = ''neutral'', confidence = 1 / 2,
             result_keywords = [''entry'']\<rparr>, [])"
proof -
  have sp: "\<forall>c \<in> set [CHR '' '', CHR 0x09, CHR 0x0A]. is_space c"
    by (simp add: is_space_def whitespace_def)
  have em: "\<forall>c \<in> set []. is_space c" by simp
  from analyze_entry_blank [OF sp, of "\<lambda>request. Timeout"]
    analyze_entry_blank [OF em, of "\<lambda>request. Timeout"] sp
  show ?thesis by simp
qed

subsection \<open>The fallback\<close>


text \<open>The emotion, score and confidence the fallback computes, as one triple.\<close>

lemma fallback_triple:
  "(dominant_emotion (fallback_analysis t), mood_score (fallback_analysis t),
    confidence (fallback_analysis t)) =
     (if sum_list (map snd (fallback_match_counts t)) = 0 then (''neutral'', 0, 1 / 2)
      else case py_max snd (fallback_match_counts t) of
             None \<Rightarrow> (''neutral'', 0, 1 / 2)
           | Some (dominant, match_count) \<Rightarrow>
               if dominant = ''happy''
               then (dominant, min (85 / 100) (real match_count * (25 / 100)),
                     min (85 / 100) (65 / 100 + real match_count * (1 / 10)))
               else if dominant = ''calm''
               then (dominant, min (55 / 100) (real match_count * (18 / 100)),
                     min (85 / 100) (65 / 100 + real match_count * (1 / 10)))
               else if dominant \<in> {''sad'', ''anxious'', ''angry''}
               then (dominant, max (- (85 / 100)) (- (real match_count * (25 / 100))),
                     min (85 / 100) (65 / 100 + real match_count * (1 / 10)))
               else (dominant, 0, 6 / 10))"
  unfolding fallback_analysis_def Let_def
  by (simp add: case_prod_beta split: option.splits)


lemma fallback_no_match:
  assumes "\<forall>p \<in> set (fallback_match_counts t). snd p = 0"
  shows "dominant_emotion (fallback_analysis t) = ''neutral''"
    and "mood_score (fallback_analysis t) = 0"
    and "confidence (fallback_analysis t) = 1 / 2"
proof -
  from assms have "sum_list (map snd (fallback_match_counts t)) = 0" by simp
  with fallback_triple [of t]
  have "(dominant_emotion (fallback_analysis t), mood_score (fallback_analysis t),
         confidence (fallback_analysis t)) = (''neutral'', 0, 1 / 2)"
    by simp
  then show "dominant_emotion (fallback_analysis t) = ''neutral''"
    and "mood_score (fallback_analysis t) = 0"
    and "confidence (fallback_analysis t) = 1 / 2"
    by (simp_all only: prod.inject)
qed

subsection \<open>Parsing and the pipeline\<close>








text \<open>
  C5, as the code has it. The analyzer's fallback and the validator's detector are two
  functions, each with its own word splitting, lexicon and scoring. On every text in
  which neither finds a keyword of a non-neutral emotion of its lexicon they return the
  same emotion, score and confidence: neutral, 0 and 0.5.
\<close>

theorem fallback_and_detector_agree_without_matches:
  assumes "\<forall>p \<in> set (fallback_match_counts t). snd p = 0"
    and "\<forall>e \<in> positive_emotions \<union> negative_emotions. evidence t e = 0"
  shows "detect_emotion_from_text t =
           Inr (dominant_emotion (fallback_analysis t), mood_score (fallback_analysis t),
                confidence (fallback_analysis t))
         \<and> dominant_emotion (fallback_analysis t) = ''neutral''
         \<and> mood_score (fallback_analysis t) = 0
         \<and> confidence (fallback_analysis t) = 1 / 2"
  using detect_neutral [OF assms(2)] fallback_no_match [OF assms(1)] by simp

theorem fallback_and_detector_agree_without_matches_witness:
  "fallback_match_counts ''hello world'' =
     [(''happy'', 0), (''sad'', 0), (''anxious'', 0), (''calm'', 0), (''angry'', 0)]
   \<and> evidence ''hello world'' ''happy'' = 0 \<and> evidence ''hello world'' ''calm'' = 0
   \<and> evidence ''hello world'' ''sad'' = 0 \<and> evidence ''hello world'' ''anxious'' = 0
   \<and> evidence ''hello world'' ''angry'' = 0
   \<and> detect_emotion_from_text ''hello world'' =
        Inr (dominant_emotion (fallback_analysis ''hello world''),
             mood_score (fallback_analysis ''hello world''),
             confidence (fallback_analysis ''hello world''))
   \<and> dominant_emotion (fallback_analysis ''hello world'') = ''neutral''"
proof -
  have counts: "fallback_match_counts ''hello world'' =
     [(''happy'', 0), (''sad'', 0), (''anxious'', 0), (''calm'', 0), (''angry'', 0)]"
    by code_simp
  have ev: "evidence ''hello world'' ''happy'' = 0" "evidence ''hello world'' ''calm'' = 0"
    "evidence ''hello world'' ''sad'' = 0" "evidence ''hello world'' ''anxious'' = 0"
    "evidence ''hello world'' ''angry'' = 0"
    by code_simp+
  have h1: "\<forall>p \<in> set (fallback_match_counts ''hello world''). snd p = 0"
    unfolding counts by simp
  have h2: "\<forall>e \<in> positive_emotions \<union> negative_emotions. evidence ''hello world'' e = 0"
    unfolding primary_emotions using ev by simp
  from fallback_and_detector_agree_without_matches [OF h1 h2] counts ev
  show ?thesis by simp
qed

text \<open>
  C5 as stated fails: on the text "an awful day" the fallback returns the emotion sad
  with score -0.25 and confidence 0.75, the detector returns neutral with score 0 and
  confidence 0.5.
\<close>

theorem fallback_and_detector_differ_counterexample:
  "fallback_analysis ''an awful day'' =
     \<lparr>mood_score = - (25 / 100), dominant_emotion = ''sad'', confidence = 75 / 100,
      result_keywords = [''awful'']\<rparr>
   \<and> detect_emotion_from_text ''an awful day'' = Inr (''neutral'', 0, 1 / 2)
   \<and> extract_quality_keywords ''an awful day'' ''neutral'' = [''awful'']"
  by code_simp

text \<open>
  C8, as the code has it. On the text "worried and stressed out" the validator's
  detector returns the emotion anxious from exactly two matches ("worried" and
  "stressed"), the score -0.8 + 0.7 * (2/5) = -0.52 inside the range of anxious, the
  confidence 0.55 + 0.08 * 2 = 0.71, and its keyword extraction returns "worried" and
  "stressed". The analyzer's fallback returns anxious and the same keywords from two
  matches, with its own score -0.5 and confidence 0.85.
\<close>

theorem worried_and_stressed_out:
  "evidence ''worried and stressed out'' ''anxious'' = 2
   \<and> emotion_kwds ''worried and stressed out'' ''anxious'' = [''worried'', ''stressed'']
   \<and> map_of EMOTION_SCORE_RANGES ''anxious'' = Some (- (8 / 10), - (1 / 10))
   \<and> detect_emotion_from_text ''worried and stressed out'' =
        Inr (''anxious'', - (8 / 10) + (- (1 / 10) - - (8 / 10)) * (2 / 5), 55 / 100 + 8 / 100 * 2)
   \<and> - (8 / 10) + (- (1 / 10) - - (8 / 10)) * (2 / 5) = (- (52 / 100) :: real)
   \<and> (55 / 100 + 8 / 100 * 2 :: real) = 71 / 100
   \<and> extract_quality_keywords ''worried and stressed out'' ''anxious'' = [''worried'', ''stressed'']
   \<and> fallback_match_counts ''worried and stressed out'' =
        [(''happy'', 0), (''sad'', 0), (''anxious'', 2), (''calm'', 0), (''angry'', 0)]
   \<and> fallback_analysis ''worried and stressed out'' =
        \<lparr>mood_score = - (1 / 2), dominant_emotion = ''anxious'', confidence = 85 / 100,
         result_keywords = [''worried'', ''stressed'']\<rparr>"
  by code_simp

text \<open>
  C8 as stated fails for the rule-based fallback of the analyzer: on "worried and
  stressed out" its score is -0.5, not -0.52, and its confidence is 0.85, not 0.71.
\<close>

theorem worried_and_stressed_out_counterexample:
  "mood_score (fallback_analysis ''worried and stressed out'') = - (1 / 2)
   \<and> mood_score (fallback_analysis ''worried and stressed out'')
        \<noteq> - (8 / 10) + (- (1 / 10) - - (8 / 10)) * (2 / 5)
   \<and> confidence (fallback_analysis ''worried and stressed out'') = 85 / 100
   \<and> confidence (fallback_analysis ''worried and stressed out'') \<noteq> 55 / 100 + 8 / 100 * 2"
  by code_simp

end
